theory Spec2Isabelle
  imports Complex_Main "HOL-Library.Sublist"
begin

section \<open>JavaScript values used by the frontend\<close>

text \<open>
  A JavaScript number is an IEEE 754 double: not-a-number, a signed infinity, or a finite
  value with a sign (zero is signed) and a magnitude, kept here as an exact rational.
\<close>

datatype jsnum = NaN | Inf bool | Fin bool rat

text \<open>
  A value that is thrown, or that a promise is rejected with. \<open>JsError m\<close> is an
  \<open>Error\<close> object (TypeError, SyntaxError, ...) whose \<open>message\<close> is \<open>m\<close>;
  \<open>Rejection b e\<close> is the plain object \<open>{ success: b, error: e }\<close>, which has no
  \<open>message\<close> property.
\<close>

datatype thrown = JsError string | Rejection bool string

text \<open>The message of the TypeError raised by a property access on null or undefined
  (the text is the engine's; it is abbreviated here).\<close>

definition typeError :: thrown where
  "typeError = JsError ''TypeError''"

section \<open>The payment gateway (frontend/payment-gateway.js)\<close>

subsection \<open>Data\<close>

text \<open>The options object of \<open>triggerCheckout\<close>: \<open>{ amount, name, email, propertyId, mode }\<close>.
  A property that is undefined is \<open>None\<close>.\<close>

record checkout_options =
  amount :: jsnum
  name :: "string option"
  email :: "string option"
  propertyId :: string
  mode :: "string option"

text \<open>\<open>currentOrder = { ...options, orderRef }\<close>; \<open>txnId\<close> is added by the timer of \<open>process\<close>.\<close>

record order = checkout_options +
  orderRef :: string
  txnId :: "string option"

text \<open>The object \<open>complete\<close> resolves the promise with.\<close>

record checkout_result =
  success :: bool
  payment_ref :: "string option"
  order_id :: string

datatype promise = Pending | Resolved checkout_result | Rejected thrown

text \<open>The part of the modal's DOM the gateway reads and writes. The header colour, the icon
  and the formatted amount are presentation only and are left out.\<close>

record modal =
  modalDisplay :: string
  pgTitle :: string
  pgSubTitle :: string
  pgOrderRef :: string
  pgMethodsList :: "string list"
  pgContentDisplay :: string
  pgProcessingDisplay :: string
  pgProcStatus :: string
  pgProcDesc :: string
  pgSuccessDisplay :: string
  pgSuccessTitle :: string
  pgTxnId :: string

text \<open>
  The closure's variables, the promises it has handed out (a promise is named by its index
  in \<open>promises\<close>; \<open>resolveCallback\<close> and \<open>rejectCallback\<close> hold the index of the promise they
  settle), the callbacks scheduled by \<open>setTimeout\<close> (each has captured \<open>isSell\<close>), and the
  modal element, absent until \<open>createModal\<close> has run.
\<close>

record pg_state =
  currentOrder :: "order option"
  resolveCallback :: "nat option"
  rejectCallback :: "nat option"
  promises :: "promise list"
  timers :: "bool list"
  modalEl :: "modal option"

definition pg_init :: pg_state where
  "pg_init = \<lparr>currentOrder = None, resolveCallback = None, rejectCallback = None,
     promises = [], timers = [], modalEl = None\<rparr>"

subsection \<open>Promises\<close>

text \<open>Settling a promise that is already settled does nothing.\<close>

definition settle :: "nat \<Rightarrow> promise \<Rightarrow> promise list \<Rightarrow> promise list" where
  "settle h v ps = (if h < length ps \<and> ps ! h = Pending then ps[h := v] else ps)"

subsection \<open>Operations\<close>

definition new_modal :: modal where
  "new_modal = \<lparr>modalDisplay = ''none'',
     pgTitle = ''BharatPropChain Checkout'',
     pgSubTitle = ''Select Payment Method'',
     pgOrderRef = ''ORDER-123'',
     pgMethodsList = [],
     pgContentDisplay = '''',
     pgProcessingDisplay = ''none'',
     pgProcStatus = ''Processing Payment...'',
     pgProcDesc = ''Please do not close this window'',
     pgSuccessDisplay = ''none'',
     pgSuccessTitle = ''Payment Successful!'',
     pgTxnId = ''BHARAT-123456''\<rparr>"

definition createModal :: "pg_state \<Rightarrow> modal" where
  "createModal s = (case modalEl s of Some m \<Rightarrow> m | None \<Rightarrow> new_modal)"

definition isSellMode :: "string option \<Rightarrow> bool" where
  "isSellMode m = (m = Some ''sell'')"

definition orderRefPrefix :: "bool \<Rightarrow> string" where
  "orderRefPrefix isSell = (if isSell then ''SELL_'' else ''ORDER_'')"

definition txnIdPrefix :: "bool \<Rightarrow> string" where
  "txnIdPrefix isSell = (if isSell then ''PAYOUT_'' else ''TXN_'')"

text \<open>
  \<open>triggerCheckout options\<close>; \<open>rnd\<close> is the string
  \<open>Math.random().toString(36).substring(7).toUpperCase()\<close>. The executor of the new promise
  runs at once; the result is the new promise and the state it leaves.
\<close>

definition triggerCheckout :: "checkout_options \<Rightarrow> string \<Rightarrow> pg_state \<Rightarrow> nat \<times> pg_state" where
  "triggerCheckout options rnd s =
     (let h = length (promises s);
          m = createModal s;
          isSell = isSellMode (mode options);
          ref = orderRefPrefix isSell @ rnd;
          m1 = m\<lparr>pgTitle := (if isSell then ''BharatPropChain Payout'' else ''BharatPropChain Checkout''),
                 pgSubTitle := (if isSell then ''Select Payout Method'' else ''Select Payment Method''),
                 pgOrderRef := ref,
                 pgMethodsList := (if isSell then [''UPI Payout'', ''Bank Transfer''] else [''UPI'', ''Card'']),
                 modalDisplay := ''flex'',
                 pgContentDisplay := ''block'',
                 pgProcessingDisplay := ''none'',
                 pgSuccessDisplay := ''none''\<rparr>
      in (h, s\<lparr>currentOrder := Some (checkout_options.extend options
                                       \<lparr>orderRef = ref, txnId = None\<rparr>),
               resolveCallback := Some h,
               rejectCallback := Some h,
               promises := promises s @ [Pending],
               modalEl := Some m1\<rparr>))"

text \<open>
  The event handlers. Each returns the exception it raises, if any, and the state it
  leaves: an exception in a handler is uncaught and what was written before it stays.
  (\<open>complete\<close> is \<open>complete_pg\<close> here: the library has a constant of that name.)
\<close>

definition process :: "string \<Rightarrow> pg_state \<Rightarrow> thrown option \<times> pg_state" where
  "process method s =
     (case currentOrder s of
        None \<Rightarrow> (Some typeError, s)
      | Some ord \<Rightarrow>
         (case modalEl s of
            None \<Rightarrow> (Some typeError, s)
          | Some m \<Rightarrow>
             (let isSell = isSellMode (mode ord)
              in (None, s\<lparr>modalEl := Some (m\<lparr>pgContentDisplay := ''none'',
                                          pgProcessingDisplay := ''block'',
                                          pgProcStatus := (if isSell then ''Initiating Payout...''
                                                           else ''Processing Payment...''),
                                          pgProcDesc := (if isSell then ''Verifying bank details''
                                                         else ''Please do not close this window'')\<rparr>),
                         timers := timers s @ [isSell]\<rparr>))))"

text \<open>The callback that \<open>process\<close> gave to \<open>setTimeout\<close>, run with its captured \<open>isSell\<close>.\<close>

definition timeout_callback :: "bool \<Rightarrow> string \<Rightarrow> pg_state \<Rightarrow> thrown option \<times> pg_state" where
  "timeout_callback isSell rnd s =
     (case modalEl s of
        None \<Rightarrow> (Some typeError, s)
      | Some m \<Rightarrow>
         (let t = txnIdPrefix isSell @ rnd;
              s1 = s\<lparr>modalEl := Some (m\<lparr>pgProcessingDisplay := ''none'',
                                     pgSuccessDisplay := ''block'',
                                     pgSuccessTitle := (if isSell then ''Payout Successful!''
                                                        else ''Payment Successful!''),
                                     pgTxnId := t\<rparr>)\<rparr>
          in case currentOrder s1 of
               None \<Rightarrow> (Some typeError, s1)
             | Some ord \<Rightarrow> (None, s1\<lparr>currentOrder := Some (ord\<lparr>txnId := Some t\<rparr>)\<rparr>)))"

definition complete_pg :: "pg_state \<Rightarrow> thrown option \<times> pg_state" where
  "complete_pg s =
     (case modalEl s of
        None \<Rightarrow> (Some typeError, s)
      | Some m \<Rightarrow>
         (let s1 = s\<lparr>modalEl := Some (m\<lparr>modalDisplay := ''none''\<rparr>)\<rparr>
          in case resolveCallback s1 of
               None \<Rightarrow> (None, s1)
             | Some h \<Rightarrow>
                (case currentOrder s1 of
                   None \<Rightarrow> (Some typeError, s1)
                 | Some ord \<Rightarrow>
                    (None, s1\<lparr>promises := settle h
                       (Resolved \<lparr>success = True, payment_ref = txnId ord, order_id = orderRef ord\<rparr>)
                       (promises s1)\<rparr>))))"

definition cancel :: "pg_state \<Rightarrow> thrown option \<times> pg_state" where
  "cancel s =
     (case modalEl s of
        None \<Rightarrow> (Some typeError, s)
      | Some m \<Rightarrow>
         (let s1 = s\<lparr>modalEl := Some (m\<lparr>modalDisplay := ''none''\<rparr>)\<rparr>
          in case rejectCallback s1 of
               None \<Rightarrow> (None, s1)
             | Some h \<Rightarrow>
                (None, s1\<lparr>promises := settle h (Rejected (Rejection False ''User cancelled''))
                                        (promises s1)\<rparr>)))"

subsection \<open>Runs of the gateway\<close>

text \<open>What can happen to the gateway: a call of one of its four functions, or the oldest
  scheduled timer firing (all timers have the same delay, so they fire in order).\<close>

datatype pg_event =
    TriggerCheckout checkout_options string
  | Process string
  | TimerFires string
  | Complete
  | Cancel

fun pg_step :: "pg_event \<Rightarrow> pg_state \<Rightarrow> pg_state" where
  "pg_step (TriggerCheckout options rnd) s = snd (triggerCheckout options rnd s)"
| "pg_step (Process method) s = snd (process method s)"
| "pg_step (TimerFires rnd) s =
     (case timers s of
        [] \<Rightarrow> s
      | isSell # rest \<Rightarrow> snd (timeout_callback isSell rnd (s\<lparr>timers := rest\<rparr>)))"
| "pg_step Complete s = snd (complete_pg s)"
| "pg_step Cancel s = snd (cancel s)"

fun pg_run :: "pg_event list \<Rightarrow> pg_state \<Rightarrow> pg_state" where
  "pg_run [] s = s"
| "pg_run (e # es) s = pg_run es (pg_step e s)"


section \<open>Numbers: IEEE 754 double arithmetic\<close>

text \<open>
  \<open>/\<close> and \<open>*\<close> on JavaScript numbers compute the exact quotient or product and round it
  to the nearest double, ties to even: 53 significant bits, exponents down to the
  subnormal step \<open>2^-1074\<close>, and infinity from \<open>2^1024\<close> on.
\<close>

definition pow2 :: "int \<Rightarrow> rat" where
  "pow2 k = (if 0 \<le> k then 2 ^ nat k else 1 / 2 ^ nat (- k))"

fun bitlen_nat :: "nat \<Rightarrow> nat" where
  "bitlen_nat n = (if n = 0 then 0 else Suc (bitlen_nat (n div 2)))"

declare bitlen_nat.simps [simp del]

text \<open>For \<open>x > 0\<close>, the exponent \<open>e\<close> with \<open>2^e \<le> x < 2^(e+1)\<close>.\<close>

definition floor_log2 :: "rat \<Rightarrow> int" where
  "floor_log2 x =
     (if 1 \<le> x then int (bitlen_nat (nat \<lfloor>x\<rfloor>)) - 1
      else - int (bitlen_nat (nat (\<lceil>1 / x\<rceil> - 1))))"

definition round_half_even :: "rat \<Rightarrow> int" where
  "round_half_even x =
     (let f = \<lfloor>x\<rfloor>; d = x - of_int f
      in if d < 1 / 2 then f
         else if 1 / 2 < d then f + 1
         else if even f then f else f + 1)"

text \<open>The double nearest to the exact magnitude \<open>x \<ge> 0\<close>, with the sign \<open>neg\<close>.\<close>

definition round_double :: "bool \<Rightarrow> rat \<Rightarrow> jsnum" where
  "round_double neg x =
     (if x = 0 then Fin neg 0
      else let e = floor_log2 x;
               q = max (e - 52) (- 1074);
               r = of_int (round_half_even (x / pow2 q)) * pow2 q
           in if pow2 1024 \<le> r then Inf neg else Fin neg r)"

fun js_div :: "jsnum \<Rightarrow> jsnum \<Rightarrow> jsnum" where
  "js_div NaN _ = NaN"
| "js_div _ NaN = NaN"
| "js_div (Inf s) (Inf t) = NaN"
| "js_div (Inf s) (Fin t b) = Inf (s \<noteq> t)"
| "js_div (Fin s a) (Inf t) = Fin (s \<noteq> t) 0"
| "js_div (Fin s a) (Fin t b) =
     (if b = 0 then (if a = 0 then NaN else Inf (s \<noteq> t))
      else round_double (s \<noteq> t) (a / b))"

fun js_mul :: "jsnum \<Rightarrow> jsnum \<Rightarrow> jsnum" where
  "js_mul NaN _ = NaN"
| "js_mul _ NaN = NaN"
| "js_mul (Inf s) (Inf t) = Inf (s \<noteq> t)"
| "js_mul (Inf s) (Fin t b) = (if b = 0 then NaN else Inf (s \<noteq> t))"
| "js_mul (Fin s a) (Inf t) = (if a = 0 then NaN else Inf (s \<noteq> t))"
| "js_mul (Fin s a) (Fin t b) = round_double (s \<noteq> t) (a * b)"

text \<open>A non-negative whole number as a JavaScript number.\<close>

definition js_nat :: "nat \<Rightarrow> jsnum" where
  "js_nat n = Fin False (of_nat n)"

section \<open>The application (frontend/app.js)\<close>

subsection \<open>Data\<close>

text \<open>\<open>currentUser\<close>: the object of the login response, or \<open>{ wallet_address }\<close>.
  (Its \<open>name\<close> and \<open>email\<close> are \<open>user_name\<close> and \<open>user_email\<close> here.)\<close>

record user =
  wallet_address :: "string option"
  user_name :: "string option"
  user_email :: "string option"

datatype click_handler = ConnectWalletHandler | DisconnectWalletHandler

text \<open>The element \<open>connectWalletBtn\<close>. The two emoji of the mode label are written
  \<open>[demo]\<close> and \<open>[ok]\<close>.\<close>

record button =
  textContent :: string
  connected :: bool
  title :: "string option"
  onclick :: "click_handler option"

text \<open>The module's variables, the browser's \<open>localStorage\<close> and the button, when the page
  has one. \<open>peraWallet\<close> tells whether a wallet provider object is attached.\<close>

record app_state =
  accessToken :: "string option"
  currentUser :: "user option"
  peraWallet :: bool
  localStorage :: "string \<rightharpoonup> string"
  connectWalletBtn :: "button option"

text \<open>Bodies of the requests the application sends.\<close>

datatype request =
    RegisterBody "string option" string string
  | LoginBody "string option"
  | TradeBody string jsnum "string option" string

text \<open>What the application does to the outside, in order: \<open>Fetch method url bearer body\<close> is
  a network request, \<open>Checkout\<close> a call of \<open>PaymentGateway.triggerCheckout\<close>.\<close>

datatype effect =
    Alert string
  | ConsoleError string thrown
  | Fetch string string "string option" "request option"
  | Checkout checkout_options
  | ProviderDisconnect

record register_response =
  reg_success :: bool
  reg_access_token :: "string option"

record login_response =
  login_access_token :: "string option"
  login_user :: "user option"

record property_info =
  total_value :: jsnum
  total_tokens :: jsnum

record trade_response =
  tr_success :: bool
  tr_error :: "string option"
  tr_transaction :: "string option"

datatype 'a js_ret = Undefined | Null | Value 'a

subsection \<open>JavaScript coercions\<close>

definition truthy :: "string option \<Rightarrow> bool" where
  "truthy x = (case x of None \<Rightarrow> False | Some v \<Rightarrow> v \<noteq> [])"

text \<open>String conversion of a value that may be undefined.\<close>

definition js_string :: "string option \<Rightarrow> string" where
  "js_string x = (case x of None \<Rightarrow> ''undefined'' | Some v \<Rightarrow> v)"

text \<open>\<open>error.message\<close> and \<open>error.success === false\<close> of a caught value.\<close>

fun message :: "thrown \<Rightarrow> string option" where
  "message (JsError m) = Some m"
| "message (Rejection b e) = None"

fun success_is_false :: "thrown \<Rightarrow> bool" where
  "success_is_false (JsError m) = False"
| "success_is_false (Rejection b e) = (\<not> b)"

definition API_BASE_URL :: string where
  "API_BASE_URL = ''http://localhost:5000''"

subsection \<open>Session\<close>

definition saveToken :: "string option \<Rightarrow> app_state \<Rightarrow> app_state" where
  "saveToken token s =
     s\<lparr>localStorage := (localStorage s)(''accessToken'' \<mapsto> js_string token),
       accessToken := token\<rparr>"

definition clearToken :: "app_state \<Rightarrow> app_state" where
  "clearToken s =
     s\<lparr>localStorage := (localStorage s)(''accessToken'' := None),
       accessToken := None,
       currentUser := None\<rparr>"

definition updateWalletUI :: "bool \<Rightarrow> app_state \<Rightarrow> thrown option \<times> app_state" where
  "updateWalletUI isDemoMode s =
     (case (connectWalletBtn s, currentUser s) of
        (Some btn, Some u) \<Rightarrow>
          (case (if truthy (wallet_address u) then wallet_address u
                 else localStorage s ''walletAddress'') of
             None \<Rightarrow> (Some typeError, s)
           | Some address \<Rightarrow>
              (let shortAddress = take 6 address @ ''...'' @ drop (length address - 4) address;
                   modeLabel = (if isDemoMode \<or> localStorage s ''isDemoMode'' = Some ''true''
                                then '' [demo]'' else '' [ok]'')
               in (None, s\<lparr>connectWalletBtn := Some (btn\<lparr>
                     textContent := shortAddress @ modeLabel,
                     connected := True,
                     title := Some (''Connected: '' @ address @ [CHR 0x0A] @ ''Click to disconnect''),
                     onclick := Some DisconnectWalletHandler\<rparr>)\<rparr>)))
      | _ \<Rightarrow> (None, s))"

text \<open>
  \<open>handleWalletConnection(accounts, isDemoMode)\<close>. \<open>reg\<close> is what the request to
  \<open>/api/auth/register\<close> gives: an exception (of \<open>fetch\<close> or of \<open>response.json()\<close>), or the
  status and the body; \<open>login\<close> likewise for \<open>/api/auth/login\<close>, consulted only when that
  request is made. The whole body is inside one \<open>try\<close>.
\<close>

definition handleWalletConnection ::
  "string list \<Rightarrow> bool \<Rightarrow> (thrown + nat \<times> register_response) \<Rightarrow> (thrown + login_response)
     \<Rightarrow> app_state \<Rightarrow> effect list \<times> app_state" where
  "handleWalletConnection accounts isDemoMode reg login s =
     (let walletAddress = (case accounts of [] \<Rightarrow> None | a # _ \<Rightarrow> Some a);
          failed = (\<lambda>fx e s'. (fx @ [ConsoleError ''Wallet connection handling error:'' e,
                                       Alert ''Failed to complete wallet connection''], s'))
      in case (if isDemoMode then Some ''demo@example.com''
               else map_option (\<lambda>a. take 8 a @ ''@perawallet.user'') walletAddress) of
           None \<Rightarrow> failed [] typeError s
         | Some mail \<Rightarrow>
            (let fx1 = [Fetch ''POST'' (API_BASE_URL @ ''/api/auth/register'') None
                         (Some (RegisterBody walletAddress
                            (if isDemoMode then ''Demo User'' else ''Pera Wallet User'') mail))];
                 finish = (\<lambda>fx tok usr.
                    (let s1 = s\<lparr>accessToken := tok, currentUser := usr\<rparr>;
                         s2 = saveToken (accessToken s1) s1;
                         s3 = s2\<lparr>localStorage := (localStorage s2)
                                  (''walletAddress'' \<mapsto> js_string walletAddress,
                                   ''isDemoMode'' \<mapsto> (if isDemoMode then ''true'' else ''false''))\<rparr>
                     in case updateWalletUI isDemoMode s3 of
                          (Some e, s4) \<Rightarrow> failed fx e s4
                        | (None, s4) \<Rightarrow>
                           (fx @ [Alert (''Wallet connected successfully!''
                                    @ (if isDemoMode then '' (Demo Mode)'' else [])
                                    @ [CHR 0x0A, CHR 0x0A] @ ''Address: ''
                                    @ js_string walletAddress)], s4)))
             in case reg of
                  Inl e \<Rightarrow> failed fx1 e s
                | Inr (status, data) \<Rightarrow>
                   if reg_success data \<or> status = 400 then
                     (let fx2 = fx1 @ [Fetch ''POST'' (API_BASE_URL @ ''/api/auth/login'') None
                                        (Some (LoginBody walletAddress))]
                      in case login of
                           Inl e \<Rightarrow> failed fx2 e s
                         | Inr loginData \<Rightarrow>
                            finish fx2 (login_access_token loginData) (login_user loginData))
                   else
                     finish fx1 (reg_access_token data)
                       (Some \<lparr>wallet_address = walletAddress, user_name = None,
                               user_email = None\<rparr>)))"

text \<open>
  \<open>disconnectWallet()\<close>. \<open>provider\<close> is the exception of \<open>peraWallet.disconnect()\<close>, if it
  raises one; it is consulted only when a provider is attached.
\<close>

definition disconnectWallet :: "thrown option \<Rightarrow> app_state \<Rightarrow> effect list \<times> app_state" where
  "disconnectWallet provider s =
     (let cleared = (\<lambda>fx.
            (let s1 = clearToken s;
                 s2 = s1\<lparr>localStorage := (localStorage s1)(''walletAddress'' := None)\<rparr>;
                 s3 = s2\<lparr>localStorage := (localStorage s2)(''isDemoMode'' := None)\<rparr>;
                 s4 = (case connectWalletBtn s3 of
                         None \<Rightarrow> s3
                       | Some btn \<Rightarrow> s3\<lparr>connectWalletBtn := Some (btn\<lparr>
                            textContent := ''Connect Wallet'',
                            connected := False,
                            onclick := Some ConnectWalletHandler\<rparr>)\<rparr>)
             in (fx @ [Alert ''Wallet disconnected''], s4)))
      in if peraWallet s then
           (case provider of
              Some e \<Rightarrow> ([ProviderDisconnect, ConsoleError ''Disconnect error:'' e], s)
            | None \<Rightarrow> cleared [ProviderDisconnect])
         else cleared [])"

subsection \<open>Trading\<close>

text \<open>\<open>apiCall(endpoint, method, body)\<close>: the request it sends; the bearer header is there
  when \<open>accessToken\<close> is truthy.\<close>

definition apiCall :: "string \<Rightarrow> string \<Rightarrow> request option \<Rightarrow> app_state \<Rightarrow> effect" where
  "apiCall endpoint method body s =
     Fetch method (API_BASE_URL @ endpoint)
       (if truthy (accessToken s) then accessToken s else None) body"

text \<open>
  \<open>buyTokens(propertyId, tokenAmount)\<close> and \<open>sellTokens(propertyId, tokenAmount)\<close>. The
  surroundings are given as what each awaited call comes back with, consulted only when
  the call is made: \<open>priceRes\<close> for the pricing request (an exception, or the \<open>property\<close> of
  the response, which may be missing), \<open>checkout\<close> for the gateway's promise
  (\<open>Pending\<close>: it is never settled) and \<open>settlement\<close> for the trade request. The result is
  the effects in order and the returned value, \<open>None\<close> when the function never returns.
  The session variables are read as they are when the operation starts.
\<close>

definition buyTokens ::
  "string \<Rightarrow> jsnum \<Rightarrow> (thrown + property_info option) \<Rightarrow> promise \<Rightarrow> (thrown + trade_response)
     \<Rightarrow> app_state \<Rightarrow> effect list \<times> string js_ret option" where
  "buyTokens propId tokenAmount priceRes checkout settlement s =
     (if \<not> truthy (accessToken s) then
        ([Alert ''Please connect your wallet first''], Some Undefined)
      else
        (let caught = (\<lambda>fx e.
               if success_is_false e then (fx @ [ConsoleError ''Trading error:'' e], Some Undefined)
               else (fx @ [ConsoleError ''Trading error:'' e,
                           Alert (''Failed to buy tokens: '' @ js_string (message e))],
                     Some Undefined));
             fx1 = [apiCall (''/api/properties/'' @ propId) ''GET'' None s]
         in case priceRes of
              Inl e \<Rightarrow> caught fx1 e
            | Inr None \<Rightarrow> caught fx1 typeError
            | Inr (Some property) \<Rightarrow>
               (let pricePerToken = js_div (total_value property) (total_tokens property);
                    totalAmount = js_mul pricePerToken tokenAmount;
                    fx2 = fx1 @ [Checkout \<lparr>amount = totalAmount,
                             name = (case currentUser s of Some u \<Rightarrow> user_name u
                                     | None \<Rightarrow> Some ''Valued Investor''),
                             email = (case currentUser s of Some u \<Rightarrow> user_email u
                                      | None \<Rightarrow> Some []),
                             propertyId = propId,
                             mode = None\<rparr>]
                in case checkout of
                     Pending \<Rightarrow> (fx2, None)
                   | Rejected e \<Rightarrow> caught fx2 e
                   | Resolved paymentResult \<Rightarrow>
                      if \<not> success paymentResult then
                        (fx2 @ [Alert ''Payment cancelled or failed.''], Some Undefined)
                      else
                        (let fx3 = fx2 @ [apiCall ''/api/trade/buy'' ''POST''
                                            (Some (TradeBody propId tokenAmount
                                               (payment_ref paymentResult) (order_id paymentResult))) s]
                         in case settlement of
                              Inl e \<Rightarrow> caught fx3 e
                            | Inr data \<Rightarrow>
                               if tr_success data then
                                 (fx3 @ [Alert ''Payment Confirmed & Tokens Purchased Successfully!''],
                                  Some (case tr_transaction data of None \<Rightarrow> Undefined
                                        | Some t \<Rightarrow> Value t))
                               else
                                 (fx3 @ [Alert (''Purchase failed after payment: '' @
                                           (if truthy (tr_error data) then js_string (tr_error data)
                                            else ''Unknown error''))],
                                  Some Undefined)))))"

definition sellTokens ::
  "string \<Rightarrow> jsnum \<Rightarrow> (thrown + property_info option) \<Rightarrow> promise \<Rightarrow> (thrown + trade_response)
     \<Rightarrow> app_state \<Rightarrow> effect list \<times> trade_response js_ret option" where
  "sellTokens propId tokenAmount priceRes checkout settlement s =
     (if \<not> truthy (accessToken s) then
        ([Alert ''Please connect your wallet first''], Some Undefined)
      else
        (let caught = (\<lambda>fx e.
               (fx @ [ConsoleError ''Trading error:'' e,
                      Alert (''Failed to sell tokens: '' @ js_string (message e))],
                Some Null));
             fx1 = [apiCall (''/api/properties/'' @ propId) ''GET'' None s]
         in case priceRes of
              Inl e \<Rightarrow> caught fx1 e
            | Inr None \<Rightarrow> caught fx1 typeError
            | Inr (Some property) \<Rightarrow>
               (let pricePerToken = js_div (total_value property) (total_tokens property);
                    totalPayout = js_mul pricePerToken tokenAmount;
                    fx2 = fx1 @ [Checkout \<lparr>amount = totalPayout,
                             name = (case currentUser s of Some u \<Rightarrow> user_name u
                                     | None \<Rightarrow> Some ''Valued Investor''),
                             email = (case currentUser s of Some u \<Rightarrow> user_email u
                                      | None \<Rightarrow> Some []),
                             propertyId = propId,
                             mode = Some ''sell''\<rparr>]
                in case checkout of
                     Pending \<Rightarrow> (fx2, None)
                   | Rejected e \<Rightarrow> caught fx2 e
                   | Resolved payoutResult \<Rightarrow>
                      if \<not> success payoutResult then
                        (fx2 @ [Alert ''Payout cancelled or failed.''], Some Null)
                      else
                        (let fx3 = fx2 @ [apiCall ''/api/trade/sell'' ''POST''
                                            (Some (TradeBody propId tokenAmount
                                               (payment_ref payoutResult) (order_id payoutResult))) s]
                         in case settlement of
                              Inl e \<Rightarrow> caught fx3 e
                            | Inr data \<Rightarrow>
                               if tr_success data then
                                 (fx3 @ [Alert ''Payout Successful! Tokens debited from your account.''],
                                  Some (Value data))
                               else
                                 (fx3 @ [Alert (''Sale failed: '' @
                                           (if truthy (tr_error data) then js_string (tr_error data)
                                            else ''Unknown error''))],
                                  Some Null)))))"

text \<open>The requests of a run that settle a trade, its POST requests, its calls to the outside
  (requests and gateway calls), and its alerts.\<close>

fun is_settlement_call :: "effect \<Rightarrow> bool" where
  "is_settlement_call (Fetch method url bearer body) =
     (url = API_BASE_URL @ ''/api/trade/buy'' \<or> url = API_BASE_URL @ ''/api/trade/sell'')"
| "is_settlement_call _ = False"

fun is_post :: "effect \<Rightarrow> bool" where
  "is_post (Fetch method url bearer body) = (method = ''POST'')"
| "is_post _ = False"

fun is_network_call :: "effect \<Rightarrow> bool" where
  "is_network_call (Fetch method url bearer body) = True"
| "is_network_call (Checkout options) = True"
| "is_network_call _ = False"

fun alerts :: "effect list \<Rightarrow> string list" where
  "alerts [] = []"
| "alerts (Alert m # fx) = m # alerts fx"
| "alerts (_ # fx) = alerts fx"

fun checkout_amounts :: "effect list \<Rightarrow> jsnum list" where
  "checkout_amounts [] = []"
| "checkout_amounts (Checkout options # fx) = amount options # checkout_amounts fx"
| "checkout_amounts (_ # fx) = checkout_amounts fx"

text \<open>What a trade shows of its outcome: the alerts and the returned value.\<close>

definition report :: "effect list \<times> 'a js_ret option \<Rightarrow> string list \<times> 'a js_ret option" where
  "report r = (alerts (fst r), snd r)"

section \<open>Notions used by the properties\<close>

fun is_login_call :: "effect \<Rightarrow> bool" where
  "is_login_call (Fetch method url bearer body) = (url = API_BASE_URL @ ''/api/auth/login'')"
| "is_login_call _ = False"

text \<open>The session holds the token \<open>tok\<close> and the profile \<open>usr\<close>, and the token is persisted
  (as the string it converts to).\<close>

definition connected_to :: "string option \<Rightarrow> user option \<Rightarrow> app_state \<Rightarrow> bool" where
  "connected_to tok usr s' =
     (accessToken s' = tok \<and> currentUser s' = usr \<and>
      localStorage s' ''accessToken'' = Some (js_string tok))"

text \<open>The gateway's promise ended without an approved payment: it was rejected, or resolved
  with \<open>success\<close> unset.\<close>

fun payment_failed :: "promise \<Rightarrow> bool" where
  "payment_failed Pending = False"
| "payment_failed (Resolved r) = (\<not> success r)"
| "payment_failed (Rejected e) = True"

text \<open>What the gateway itself can end a promise with short of an approved payment: a
  rejection with an object whose \<open>success\<close> is false, as \<open>cancel\<close> gives, or a result with
  \<open>success\<close> unset.\<close>

fun payment_declined :: "promise \<Rightarrow> bool" where
  "payment_declined Pending = False"
| "payment_declined (Resolved r) = (\<not> success r)"
| "payment_declined (Rejected (Rejection b e)) = (\<not> b)"
| "payment_declined (Rejected (JsError m)) = False"

text \<open>The values a promise of the gateway can have.\<close>

fun gateway_outcome :: "promise \<Rightarrow> bool" where
  "gateway_outcome Pending = True"
| "gateway_outcome (Resolved r) = success r"
| "gateway_outcome (Rejected e) = (e = Rejection False ''User cancelled'')"

text \<open>
  What holds of the promise \<open>h\<close> of a checkout with mode \<open>isSell\<close> and reference \<open>ref\<close>, from
  its \<open>triggerCheckout\<close> on: once resolved it carries the reference and a transaction id
  with a transaction prefix, and as long as \<open>resolveCallback\<close> holds it the order in the slot
  is that checkout's. With \<open>strict\<close> the transaction prefix is the one of the mode, and every
  pending timer has been scheduled for that mode.
\<close>

definition txn_ok :: "bool \<Rightarrow> bool \<Rightarrow> string option \<Rightarrow> bool" where
  "txn_ok strict isSell t =
     (case t of
        None \<Rightarrow> True
      | Some v \<Rightarrow> if strict then prefix (txnIdPrefix isSell) v
                  else prefix (txnIdPrefix True) v \<or> prefix (txnIdPrefix False) v)"

definition order_inv :: "bool \<Rightarrow> nat \<Rightarrow> bool \<Rightarrow> string \<Rightarrow> pg_state \<Rightarrow> bool" where
  "order_inv strict h isSell ref s =
     (h < length (promises s) \<and>
      (case promises s ! h of
         Resolved res \<Rightarrow> order_id res = ref \<and> txn_ok strict isSell (payment_ref res)
       | _ \<Rightarrow> True) \<and>
      (if resolveCallback s = Some h then
         (case currentOrder s of
            None \<Rightarrow> False
          | Some ord \<Rightarrow> isSellMode (mode ord) = isSell \<and> orderRef ord = ref \<and>
                        txn_ok strict isSell (txnId ord)) \<and>
         (if strict then list_all (\<lambda>b. b = isSell) (timers s) else True)
       else True))"

text \<open>Inputs for the examples.\<close>

definition buy_options :: checkout_options where
  "buy_options = \<lparr>amount = js_nat 500000, name = Some ''Asha'', email = Some ''asha@example.com'',
     propertyId = ''PROP1'', mode = None\<rparr>"

definition sell_options :: checkout_options where
  "sell_options = \<lparr>amount = js_nat 500000, name = Some ''Asha'', email = Some ''asha@example.com'',
     propertyId = ''PROP1'', mode = Some ''sell''\<rparr>"

definition connected_session :: app_state where
  "connected_session = \<lparr>accessToken = Some ''JWT1'',
     currentUser = Some \<lparr>wallet_address = Some ''ALGOADDRESS1'', user_name = Some ''Asha'',
                          user_email = Some ''asha@example.com''\<rparr>,
     peraWallet = True,
     localStorage = [''accessToken'' \<mapsto> ''JWT1'', ''walletAddress'' \<mapsto> ''ALGOADDRESS1'',
                     ''isDemoMode'' \<mapsto> ''false''],
     connectWalletBtn = None\<rparr>"

definition no_session :: app_state where
  "no_session = \<lparr>accessToken = None, currentUser = None, peraWallet = False,
     localStorage = Map.empty, connectWalletBtn = None\<rparr>"

definition registered :: register_response where
  "registered = \<lparr>reg_success = True, reg_access_token = Some ''REGTOKEN''\<rparr>"

definition register_failed :: register_response where
  "register_failed = \<lparr>reg_success = False, reg_access_token = None\<rparr>"

definition logged_in :: login_response where
  "logged_in = \<lparr>login_access_token = Some ''LOGINTOKEN'',
     login_user = Some \<lparr>wallet_address = Some ''ALGOADDRESS1'', user_name = Some ''Asha'',
                         user_email = Some ''asha@example.com''\<rparr>\<rparr>"

definition approved :: checkout_result where
  "approved = \<lparr>success = True, payment_ref = Some ''PAYOUT_T1'', order_id = ''SELL_S1''\<rparr>"

definition example_property :: property_info where
  "example_property = \<lparr>total_value = js_nat 50000000, total_tokens = js_nat 1000\<rparr>"

section \<open>Properties of the payment gateway\<close>

subsection \<open>Promises and the slot\<close>

lemma settle_length [simp]: "length (settle h v ps) = length ps"
  by (simp add: settle_def)

lemma settle_other: "k \<noteq> h \<Longrightarrow> settle h v ps ! k = ps ! k"
  by (simp add: settle_def)

lemma settle_pending: "h < length ps \<Longrightarrow> ps ! h = Pending \<Longrightarrow> settle h v ps ! h = v"
  by (simp add: settle_def)

lemma settle_settled: "ps ! h \<noteq> Pending \<Longrightarrow> settle h v ps = ps"
  by (simp add: settle_def)

lemma triggerCheckout_fst: "fst (triggerCheckout options rnd s) = length (promises s)"
  by (simp add: triggerCheckout_def Let_def)

lemma triggerCheckout_snd:
  "currentOrder (snd (triggerCheckout options rnd s)) =
     Some (checkout_options.extend options
        \<lparr>orderRef = orderRefPrefix (isSellMode (mode options)) @ rnd, txnId = None\<rparr>)"
  "resolveCallback (snd (triggerCheckout options rnd s)) = Some (length (promises s))"
  "rejectCallback (snd (triggerCheckout options rnd s)) = Some (length (promises s))"
  "promises (snd (triggerCheckout options rnd s)) = promises s @ [Pending]"
  "timers (snd (triggerCheckout options rnd s)) = timers s"
  by (simp_all add: triggerCheckout_def Let_def)

lemmas pg_eval = triggerCheckout_def process_def timeout_callback_def complete_pg_def cancel_def
  Let_def pg_init_def buy_options_def sell_options_def orderRefPrefix_def txnIdPrefix_def
  isSellMode_def checkout_options.defs settle_def createModal_def new_modal_def

subsection \<open>A second checkout while one is open\<close>

text \<open>A promise that neither callback holds is never settled.\<close>

lemma pg_step_unreachable_promise:
  assumes "h0 < length (promises s)" "promises s ! h0 = Pending"
    "resolveCallback s \<noteq> Some h0" "rejectCallback s \<noteq> Some h0"
  shows "h0 < length (promises (pg_step e s)) \<and> promises (pg_step e s) ! h0 = Pending \<and>
    resolveCallback (pg_step e s) \<noteq> Some h0 \<and> rejectCallback (pg_step e s) \<noteq> Some h0"
proof (cases e)
  case (TriggerCheckout options rnd)
  with assms show ?thesis by (simp add: triggerCheckout_snd nth_append)
next
  case (Process m)
  with assms show ?thesis by (simp add: process_def Let_def split: option.splits)
next
  case (TimerFires rnd)
  with assms show ?thesis
    by (simp add: timeout_callback_def Let_def split: option.splits list.splits)
next
  case Complete
  with assms show ?thesis
    by (auto simp add: complete_pg_def Let_def settle_other split: option.splits)
next
  case Cancel
  with assms show ?thesis
    by (auto simp add: cancel_def Let_def settle_other split: option.splits)
qed

lemma pg_run_unreachable_promise:
  "h0 < length (promises s) \<Longrightarrow> promises s ! h0 = Pending \<Longrightarrow>
   resolveCallback s \<noteq> Some h0 \<Longrightarrow> rejectCallback s \<noteq> Some h0 \<Longrightarrow>
   promises (pg_run es s) ! h0 = Pending"
proof (induction es arbitrary: s)
  case Nil
  then show ?case by simp
next
  case (Cons e es)
  from pg_step_unreachable_promise [OF Cons.prems, of e]
  show ?case by (simp add: Cons.IH)
qed

text \<open>
  C1 (as amended). \<open>triggerCheckout\<close> has no guard for an open order. A call made while an
  earlier promise is still pending is accepted: it returns a new pending promise, puts its
  own order into the slot and binds both callbacks to the new promise. The earlier promise
  is left pending, and since no callback holds it any more it stays pending whatever happens
  afterwards.
\<close>

theorem triggerCheckout_overwrites_slot:
  assumes "h0 < length (promises s)" and "promises s ! h0 = Pending"
  shows "fst (triggerCheckout options rnd s) = length (promises s) \<and>
         promises (snd (triggerCheckout options rnd s)) ! length (promises s) = Pending \<and>
         currentOrder (snd (triggerCheckout options rnd s)) =
           Some (checkout_options.extend options
             \<lparr>orderRef = orderRefPrefix (isSellMode (mode options)) @ rnd, txnId = None\<rparr>) \<and>
         resolveCallback (snd (triggerCheckout options rnd s)) = Some (length (promises s)) \<and>
         rejectCallback (snd (triggerCheckout options rnd s)) = Some (length (promises s)) \<and>
         (\<forall>es. promises (pg_run es (snd (triggerCheckout options rnd s))) ! h0 = Pending)"
proof -
  let ?s' = "snd (triggerCheckout options rnd s)"
  have "promises (pg_run es ?s') ! h0 = Pending" for es
    using assms by (intro pg_run_unreachable_promise) (simp_all add: triggerCheckout_snd nth_append)
  then show ?thesis
    by (simp add: triggerCheckout_fst triggerCheckout_snd)
qed

theorem triggerCheckout_overwrites_slot_witness:
  "0 < length (promises (snd (triggerCheckout buy_options ''B1'' pg_init))) \<and>
   promises (snd (triggerCheckout buy_options ''B1'' pg_init)) ! 0 = Pending \<and>
   promises (snd (triggerCheckout sell_options ''S1'' (snd (triggerCheckout buy_options ''B1'' pg_init)))) ! 1
     = Pending \<and>
   resolveCallback (snd (triggerCheckout sell_options ''S1'' (snd (triggerCheckout buy_options ''B1'' pg_init))))
     = Some 1 \<and>
   promises (pg_run [Process ''UPI'', TimerFires ''T1'', Complete, Cancel]
      (snd (triggerCheckout sell_options ''S1'' (snd (triggerCheckout buy_options ''B1'' pg_init))))) ! 0
     = Pending"
proof -
  let ?s1 = "snd (triggerCheckout buy_options ''B1'' pg_init)"
  have a: "0 < length (promises ?s1)" and b: "promises ?s1 ! 0 = Pending"
    by (simp_all add: triggerCheckout_snd pg_init_def)
  have c: "length (promises ?s1) = 1"
    by (simp add: triggerCheckout_snd pg_init_def)
  note t = triggerCheckout_overwrites_slot [OF a b, of sell_options "''S1''", unfolded c]
  from t have "promises (pg_run [Process ''UPI'', TimerFires ''T1'', Complete, Cancel]
      (snd (triggerCheckout sell_options ''S1'' ?s1))) ! 0 = Pending"
    by blast
  with a b t show ?thesis by blast
qed

text \<open>The claim as the specification states it fails: after a first checkout, a second
  \<open>triggerCheckout\<close> is not rejected (its promise is pending) and the slot holds the second
  order, with both callbacks bound to the second promise.\<close>

theorem triggerCheckout_no_guard_counterexample:
  "promises (snd (triggerCheckout sell_options ''S1'' (snd (triggerCheckout buy_options ''B1'' pg_init)))) ! 1
     = Pending \<and>
   map_option orderRef (currentOrder (snd (triggerCheckout buy_options ''B1'' pg_init))) = Some ''ORDER_B1'' \<and>
   map_option orderRef (currentOrder
      (snd (triggerCheckout sell_options ''S1'' (snd (triggerCheckout buy_options ''B1'' pg_init)))))
     = Some ''SELL_S1'' \<and>
   resolveCallback (snd (triggerCheckout buy_options ''B1'' pg_init)) = Some 0 \<and>
   resolveCallback (snd (triggerCheckout sell_options ''S1'' (snd (triggerCheckout buy_options ''B1'' pg_init))))
     = Some 1 \<and>
   rejectCallback (snd (triggerCheckout sell_options ''S1'' (snd (triggerCheckout buy_options ''B1'' pg_init))))
     = Some 1"
  by (simp add: triggerCheckout_def Let_def pg_init_def buy_options_def sell_options_def
      orderRefPrefix_def isSellMode_def checkout_options.defs)

subsection \<open>Acknowledging and cancelling\<close>

text \<open>
  C2 (as amended). With an order in the slot, \<open>complete\<close> and \<open>cancel\<close> hide the modal and
  settle the order's promise if it is still pending: \<open>complete\<close> resolves it with
  \<open>{ success: true, payment_ref: txnId, order_id: orderRef }\<close>, \<open>cancel\<close> rejects it with
  \<open>{ success: false, error: 'User cancelled' }\<close>; a promise already settled, and every other
  promise, is left alone. Neither clears the slot: \<open>currentOrder\<close>, \<open>resolveCallback\<close> and
  \<open>rejectCallback\<close> keep their values, and the pending timers stay.
\<close>

theorem complete_cancel_keep_slot:
  assumes "modalEl s = Some m" and "currentOrder s = Some ord"
    and "resolveCallback s = Some h" and "rejectCallback s = Some h"
    and "h < length (promises s)"
  shows "currentOrder (snd (complete_pg s)) = Some ord \<and>
         resolveCallback (snd (complete_pg s)) = Some h \<and>
         rejectCallback (snd (complete_pg s)) = Some h \<and>
         timers (snd (complete_pg s)) = timers s \<and>
         modalEl (snd (complete_pg s)) = Some (m\<lparr>modalDisplay := ''none''\<rparr>) \<and>
         promises (snd (complete_pg s)) =
           (if promises s ! h = Pending
            then (promises s)[h := Resolved \<lparr>success = True, payment_ref = txnId ord,
                                             order_id = orderRef ord\<rparr>]
            else promises s) \<and>
         currentOrder (snd (cancel s)) = Some ord \<and>
         resolveCallback (snd (cancel s)) = Some h \<and>
         rejectCallback (snd (cancel s)) = Some h \<and>
         timers (snd (cancel s)) = timers s \<and>
         modalEl (snd (cancel s)) = Some (m\<lparr>modalDisplay := ''none''\<rparr>) \<and>
         promises (snd (cancel s)) =
           (if promises s ! h = Pending
            then (promises s)[h := Rejected (Rejection False ''User cancelled'')]
            else promises s)"
  using assms by (simp add: complete_pg_def cancel_def Let_def settle_def)

theorem complete_cancel_keep_slot_witness:
  "currentOrder (pg_run [TriggerCheckout buy_options ''B1'', Process ''UPI'', TimerFires ''T1''] pg_init)
     = Some (checkout_options.extend buy_options \<lparr>orderRef = ''ORDER_B1'', txnId = Some ''TXN_T1''\<rparr>) \<and>
   resolveCallback (pg_run [TriggerCheckout buy_options ''B1'', Process ''UPI'', TimerFires ''T1''] pg_init)
     = Some 0 \<and>
   promises (pg_run [TriggerCheckout buy_options ''B1'', Process ''UPI'', TimerFires ''T1''] pg_init)
     = [Pending] \<and>
   currentOrder (snd (complete_pg
      (pg_run [TriggerCheckout buy_options ''B1'', Process ''UPI'', TimerFires ''T1''] pg_init)))
     = Some (checkout_options.extend buy_options \<lparr>orderRef = ''ORDER_B1'', txnId = Some ''TXN_T1''\<rparr>) \<and>
   resolveCallback (snd (complete_pg
      (pg_run [TriggerCheckout buy_options ''B1'', Process ''UPI'', TimerFires ''T1''] pg_init)))
     = Some 0 \<and>
   promises (snd (complete_pg
      (pg_run [TriggerCheckout buy_options ''B1'', Process ''UPI'', TimerFires ''T1''] pg_init)))
     = [Resolved \<lparr>success = True, payment_ref = Some ''TXN_T1'', order_id = ''ORDER_B1''\<rparr>] \<and>
   rejectCallback (snd (cancel
      (pg_run [TriggerCheckout buy_options ''B1'', Process ''UPI'', TimerFires ''T1''] pg_init)))
     = Some 0 \<and>
   promises (snd (cancel
      (pg_run [TriggerCheckout buy_options ''B1'', Process ''UPI'', TimerFires ''T1''] pg_init)))
     = [Rejected (Rejection False ''User cancelled'')]"
proof -
  let ?s = "pg_run [TriggerCheckout buy_options ''B1'', Process ''UPI'', TimerFires ''T1''] pg_init"
  obtain m where m: "modalEl ?s = Some m"
    by (simp add: pg_eval)
  have ord: "currentOrder ?s = Some (checkout_options.extend buy_options
      \<lparr>orderRef = ''ORDER_B1'', txnId = Some ''TXN_T1''\<rparr>)"
    and h: "resolveCallback ?s = Some 0" and j: "rejectCallback ?s = Some 0"
    and l: "0 < length (promises ?s)" and p: "promises ?s = [Pending]"
    by (simp_all add: pg_eval)
  from complete_cancel_keep_slot [OF m ord h j l] ord h p show ?thesis
    by (simp add: checkout_options.defs)
qed

text \<open>The slot is not cleared: after a whole checkout and \<open>complete\<close>, and after a cancelled
  one, the order and both callbacks are still there.\<close>

theorem slot_not_cleared_counterexample:
  "map_option orderRef (currentOrder (pg_run
      [TriggerCheckout buy_options ''B1'', Process ''UPI'', TimerFires ''T1'', Complete] pg_init))
     = Some ''ORDER_B1'' \<and>
   resolveCallback (pg_run
      [TriggerCheckout buy_options ''B1'', Process ''UPI'', TimerFires ''T1'', Complete] pg_init)
     = Some 0 \<and>
   rejectCallback (pg_run
      [TriggerCheckout buy_options ''B1'', Process ''UPI'', TimerFires ''T1'', Complete] pg_init)
     = Some 0 \<and>
   map_option orderRef (currentOrder (pg_run [TriggerCheckout buy_options ''B1'', Cancel] pg_init))
     = Some ''ORDER_B1'' \<and>
   resolveCallback (pg_run [TriggerCheckout buy_options ''B1'', Cancel] pg_init) = Some 0 \<and>
   rejectCallback (pg_run [TriggerCheckout buy_options ''B1'', Cancel] pg_init) = Some 0"
  by (simp add: pg_eval)

text \<open>
  C10. When \<open>complete\<close> is called while an order is open (its promise is pending and held by
  \<open>resolveCallback\<close>) and the order has no transaction id yet, it raises nothing and the
  promise is resolved as successful, with \<open>payment_ref\<close> undefined and \<open>order_id\<close> the
  order's reference.
\<close>

theorem complete_before_txnId:
  assumes "modalEl s = Some m" and "currentOrder s = Some ord" and "txnId ord = None"
    and "resolveCallback s = Some h" and "h < length (promises s)"
    and "promises s ! h = Pending"
  shows "fst (complete_pg s) = None \<and>
         promises (snd (complete_pg s)) ! h =
           Resolved \<lparr>success = True, payment_ref = None, order_id = orderRef ord\<rparr>"
  using assms by (simp add: complete_pg_def Let_def settle_def)

theorem complete_before_txnId_witness:
  "modalEl (pg_run [TriggerCheckout buy_options ''B1'', Process ''UPI''] pg_init) \<noteq> None \<and>
   map_option txnId (currentOrder (pg_run [TriggerCheckout buy_options ''B1'', Process ''UPI''] pg_init))
     = Some None \<and>
   resolveCallback (pg_run [TriggerCheckout buy_options ''B1'', Process ''UPI''] pg_init) = Some 0 \<and>
   promises (pg_run [TriggerCheckout buy_options ''B1'', Process ''UPI''] pg_init) ! 0 = Pending \<and>
   timers (pg_run [TriggerCheckout buy_options ''B1'', Process ''UPI''] pg_init) = [False] \<and>
   fst (complete_pg (pg_run [TriggerCheckout buy_options ''B1'', Process ''UPI''] pg_init)) = None \<and>
   promises (snd (complete_pg (pg_run [TriggerCheckout buy_options ''B1'', Process ''UPI''] pg_init))) ! 0
     = Resolved \<lparr>success = True, payment_ref = None, order_id = ''ORDER_B1''\<rparr>"
proof -
  let ?s = "pg_run [TriggerCheckout buy_options ''B1'', Process ''UPI''] pg_init"
  obtain m ord where m: "modalEl ?s = Some m" and ord: "currentOrder ?s = Some ord"
    and t: "txnId ord = None" and r: "orderRef ord = ''ORDER_B1''"
    by (simp add: pg_eval)
  have h: "resolveCallback ?s = Some 0" and l: "0 < length (promises ?s)"
    and p: "promises ?s ! 0 = Pending" and tm: "timers ?s = [False]"
    by (simp_all add: pg_eval)
  from complete_before_txnId [OF m ord t h l p] m ord t r h p tm show ?thesis by simp
qed

text \<open>Such states are the ones between \<open>triggerCheckout\<close> and the first timer: after
  \<open>triggerCheckout\<close> and any number of calls of \<open>process\<close>, with no timer fired yet,
  \<open>complete\<close> resolves the promise without a payment reference.\<close>

lemma process_keeps_open_order:
  assumes "modalEl s \<noteq> None" and "currentOrder s = Some ord"
  shows "fst (process method s) = None \<and> modalEl (snd (process method s)) \<noteq> None \<and>
         currentOrder (snd (process method s)) = Some ord \<and>
         resolveCallback (snd (process method s)) = resolveCallback s \<and>
         promises (snd (process method s)) = promises s"
  using assms by (auto simp add: process_def Let_def split: option.splits)

lemma processes_keep_open_order:
  assumes "modalEl s \<noteq> None" and "currentOrder s = Some ord"
  shows "modalEl (pg_run (map Process methods) s) \<noteq> None \<and>
         currentOrder (pg_run (map Process methods) s) = Some ord \<and>
         resolveCallback (pg_run (map Process methods) s) = resolveCallback s \<and>
         promises (pg_run (map Process methods) s) = promises s"
  using assms
proof (induction methods arbitrary: s)
  case Nil
  then show ?case by simp
next
  case (Cons m ms)
  from process_keeps_open_order [OF Cons.prems, of m]
  have "modalEl (pg_step (Process m) s) \<noteq> None"
    and "currentOrder (pg_step (Process m) s) = Some ord"
    and r: "resolveCallback (pg_step (Process m) s) = resolveCallback s"
    and p: "promises (pg_step (Process m) s) = promises s"
    by simp_all
  from Cons.IH [OF this(1,2)] r p show ?case by simp
qed

lemma complete_before_timer_fires:
  "promises (snd (complete_pg (pg_run (TriggerCheckout options rnd # map Process methods) s)))
     ! length (promises s) =
   Resolved \<lparr>success = True, payment_ref = None,
              order_id = orderRefPrefix (isSellMode (mode options)) @ rnd\<rparr>"
proof -
  let ?s1 = "snd (triggerCheckout options rnd s)"
  let ?ord = "checkout_options.extend options
        \<lparr>orderRef = orderRefPrefix (isSellMode (mode options)) @ rnd, txnId = None\<rparr>"
  have m: "modalEl ?s1 \<noteq> None" by (simp add: triggerCheckout_def Let_def)
  have o: "currentOrder ?s1 = Some ?ord" by (simp add: triggerCheckout_snd)
  let ?s2 = "pg_run (map Process methods) ?s1"
  from processes_keep_open_order [OF m o, of methods]
  have "modalEl ?s2 \<noteq> None" and "currentOrder ?s2 = Some ?ord"
    and "resolveCallback ?s2 = Some (length (promises s))"
    and "promises ?s2 = promises s @ [Pending]"
    by (simp_all add: triggerCheckout_snd)
  then show ?thesis
    by (auto simp add: complete_pg_def Let_def settle_def checkout_options.defs)
qed

subsection \<open>Prefixes of references and transaction ids\<close>

lemma settle_nth:
  "settle k v ps ! h = (if k = h \<and> h < length ps \<and> ps ! h = Pending then v else ps ! h)"
  by (auto simp add: settle_def nth_list_update)

lemma prefix_first_differs:
  "prefix (a # p) t \<Longrightarrow> a \<noteq> c \<Longrightarrow> \<not> prefix (c # q) t"
  by (cases t) auto

lemma txn_never_reference:
  assumes "prefix (txnIdPrefix b) t"
  shows "\<not> prefix (orderRefPrefix True) t" and "\<not> prefix (orderRefPrefix False) t"
    and "\<not> prefix (txnIdPrefix (\<not> b)) t"
  using assms by (auto simp: txnIdPrefix_def orderRefPrefix_def split: if_splits
      dest: prefix_first_differs)

lemma order_inv_step:
  assumes "order_inv strict h b ref s"
  shows "order_inv strict h b ref (pg_step e s)"
proof (cases e)
  case (TriggerCheckout options rnd)
  with assms show ?thesis
    by (auto simp add: order_inv_def triggerCheckout_snd nth_append split: promise.splits)
next
  case (Process m)
  with assms show ?thesis
    by (auto simp add: order_inv_def process_def Let_def split: option.splits if_splits)
next
  case (TimerFires rnd)
  with assms show ?thesis
    by (auto simp add: order_inv_def timeout_callback_def Let_def txn_ok_def
        split: option.splits list.splits if_splits)
next
  case Complete
  with assms show ?thesis
    by (auto simp add: order_inv_def complete_pg_def Let_def settle_nth
        split: option.splits promise.splits if_splits)
next
  case Cancel
  with assms show ?thesis
    by (auto simp add: order_inv_def cancel_def Let_def settle_nth
        split: option.splits promise.splits if_splits)
qed

lemma order_inv_run:
  "order_inv strict h b ref s \<Longrightarrow> order_inv strict h b ref (pg_run es s)"
  by (induction es arbitrary: s) (simp_all add: order_inv_step)

lemma order_inv_trigger:
  "strict \<longrightarrow> list_all (\<lambda>x. x = isSellMode (mode options)) (timers s) \<Longrightarrow>
   order_inv strict (length (promises s)) (isSellMode (mode options))
     (orderRefPrefix (isSellMode (mode options)) @ rnd) (snd (triggerCheckout options rnd s))"
  by (simp add: order_inv_def triggerCheckout_snd txn_ok_def checkout_options.defs)

lemma normal_run:
  "pg_run [TriggerCheckout sell_options ''S1'', Process ''UPI Payout'', TimerFires ''T1'', Complete]
     pg_init =
   \<lparr>currentOrder = Some (checkout_options.extend sell_options
        \<lparr>orderRef = ''SELL_S1'', txnId = Some ''PAYOUT_T1''\<rparr>),
    resolveCallback = Some 0, rejectCallback = Some 0,
    promises = [Resolved \<lparr>success = True, payment_ref = Some ''PAYOUT_T1'', order_id = ''SELL_S1''\<rparr>],
    timers = [],
    modalEl = Some \<lparr>modalDisplay = ''none'', pgTitle = ''BharatPropChain Payout'',
      pgSubTitle = ''Select Payout Method'', pgOrderRef = ''SELL_S1'',
      pgMethodsList = [''UPI Payout'', ''Bank Transfer''], pgContentDisplay = ''none'',
      pgProcessingDisplay = ''none'', pgProcStatus = ''Initiating Payout...'',
      pgProcDesc = ''Verifying bank details'', pgSuccessDisplay = ''block'',
      pgSuccessTitle = ''Payout Successful!'', pgTxnId = ''PAYOUT_T1''\<rparr>\<rparr>"
  by (simp add: pg_eval)

text \<open>
  C9 (as amended). For every checkout whose promise is resolved, the order reference is the
  reference prefix of the order's mode (\<open>ORDER_\<close> for a payment, \<open>SELL_\<close> for a payout)
  followed by the random part, and does not carry the reference prefix of the other mode; a
  transaction id, when the result has one, carries one of the two transaction prefixes
  (\<open>TXN_\<close>, \<open>PAYOUT_\<close>) and neither reference prefix. The transaction prefix is the one
  of the order's mode, and not the other, provided every timer still pending when the
  checkout starts was scheduled for an order of the same mode (so in particular when none
  is pending).
\<close>

theorem checkout_prefixes:
  assumes "promises (pg_run (TriggerCheckout options rnd # es) s) ! length (promises s) = Resolved res"
  shows "order_id res = orderRefPrefix (isSellMode (mode options)) @ rnd \<and>
         \<not> prefix (orderRefPrefix (\<not> isSellMode (mode options))) (order_id res) \<and>
         (payment_ref res = Some t \<longrightarrow>
            (prefix (txnIdPrefix True) t \<or> prefix (txnIdPrefix False) t) \<and>
            \<not> prefix (orderRefPrefix True) t \<and> \<not> prefix (orderRefPrefix False) t) \<and>
         (payment_ref res = Some t \<and>
          list_all (\<lambda>x. x = isSellMode (mode options)) (timers s) \<longrightarrow>
            prefix (txnIdPrefix (isSellMode (mode options))) t \<and>
            \<not> prefix (txnIdPrefix (\<not> isSellMode (mode options))) t)"
proof -
  let ?b = "isSellMode (mode options)"
  let ?ref = "orderRefPrefix ?b @ rnd"
  let ?s' = "pg_run es (snd (triggerCheckout options rnd s))"
  have loose: "order_inv False (length (promises s)) ?b ?ref ?s'"
    by (intro order_inv_run order_inv_trigger) simp
  with assms have ref: "order_id res = ?ref" and any: "txn_ok False ?b (payment_ref res)"
    by (simp_all add: order_inv_def)
  have other: "\<not> prefix (orderRefPrefix (\<not> ?b)) ?ref"
    by (simp add: orderRefPrefix_def)
  have p3: "(prefix (txnIdPrefix True) t \<or> prefix (txnIdPrefix False) t) \<and>
            \<not> prefix (orderRefPrefix True) t \<and> \<not> prefix (orderRefPrefix False) t"
    if "payment_ref res = Some t"
    using any that txn_never_reference(1,2) [of True t] txn_never_reference(1,2) [of False t]
    by (auto simp add: txn_ok_def)
  have p4: "prefix (txnIdPrefix ?b) t \<and> \<not> prefix (txnIdPrefix (\<not> ?b)) t"
    if t: "payment_ref res = Some t" and tm: "list_all (\<lambda>x. x = ?b) (timers s)"
  proof -
    have "order_inv True (length (promises s)) ?b ?ref ?s'"
      using tm by (intro order_inv_run order_inv_trigger) simp
    with assms t have "prefix (txnIdPrefix ?b) t"
      by (simp add: order_inv_def txn_ok_def)
    with txn_never_reference(3) [of ?b t] show ?thesis by simp
  qed
  from ref other p3 p4 show ?thesis by auto
qed

theorem checkout_prefixes_witness:
  "promises (pg_run [TriggerCheckout sell_options ''S1'', Process ''UPI Payout'', TimerFires ''T1'',
      Complete] pg_init) ! length (promises pg_init)
     = Resolved \<lparr>success = True, payment_ref = Some ''PAYOUT_T1'', order_id = ''SELL_S1''\<rparr> \<and>
   list_all (\<lambda>x. x = isSellMode (mode sell_options)) (timers pg_init) \<and>
   isSellMode (mode sell_options) \<and>
   prefix (txnIdPrefix True) ''PAYOUT_T1'' \<and>
   \<not> prefix (txnIdPrefix False) ''PAYOUT_T1'' \<and>
   \<not> prefix (orderRefPrefix True) ''PAYOUT_T1'' \<and>
   \<not> prefix (orderRefPrefix False) ''PAYOUT_T1'' \<and>
   \<not> prefix (orderRefPrefix False) ''SELL_S1''"
proof -
  have c: "promises (pg_run (TriggerCheckout sell_options ''S1'' #
        [Process ''UPI Payout'', TimerFires ''T1'', Complete]) pg_init) ! length (promises pg_init)
     = Resolved \<lparr>success = True, payment_ref = Some ''PAYOUT_T1'', order_id = ''SELL_S1''\<rparr>"
    by (simp add: pg_eval)
  have a: "list_all (\<lambda>x. x = isSellMode (mode sell_options)) (timers pg_init)"
    by (simp add: pg_init_def)
  have b: "isSellMode (mode sell_options)"
    by (simp add: sell_options_def isSellMode_def)
  from checkout_prefixes [OF c, of "''PAYOUT_T1''"] a b c show ?thesis by simp
qed

text \<open>Without the condition on the pending timers the transaction prefix can be the wrong
  one: \<open>process\<close> captures the mode of the order it is called for, and its timer writes the
  transaction id into whatever order is in the slot when it fires. A payout order created
  while a payment's timer is pending is completed with a payment's transaction id.\<close>

theorem overlapping_checkout_counterexample:
  "timers (pg_run [TriggerCheckout buy_options ''B1'', Process ''UPI''] pg_init) = [False] \<and>
   promises (pg_run [TriggerCheckout buy_options ''B1'', Process ''UPI'',
      TriggerCheckout sell_options ''S1'', TimerFires ''T1'', Complete] pg_init) ! 1
     = Resolved \<lparr>success = True, payment_ref = Some ''TXN_T1'', order_id = ''SELL_S1''\<rparr> \<and>
   map_option mode (currentOrder (pg_run [TriggerCheckout buy_options ''B1'', Process ''UPI'',
      TriggerCheckout sell_options ''S1'', TimerFires ''T1'', Complete] pg_init))
     = Some (Some ''sell'') \<and>
   txnIdPrefix (isSellMode (Some ''sell'')) = ''PAYOUT_'' \<and>
   \<not> prefix ''PAYOUT_'' ''TXN_T1''"
  by (simp add: pg_eval)

subsection \<open>What the gateway settles its promises with\<close>

text \<open>Started from nothing, the gateway resolves only with \<open>success: true\<close> and rejects only
  with the object of \<open>cancel\<close>; so a promise of the gateway that ends without an approved
  payment is such a rejection.\<close>

lemma settle_outcomes:
  "list_all gateway_outcome ps \<Longrightarrow> gateway_outcome v \<Longrightarrow> list_all gateway_outcome (settle k v ps)"
  by (auto simp add: settle_def list_all_length nth_list_update)

lemma gateway_outcome_step:
  assumes "list_all gateway_outcome (promises s)"
  shows "list_all gateway_outcome (promises (pg_step e s))"
proof (cases e)
  case (TriggerCheckout options rnd)
  with assms show ?thesis by (simp add: triggerCheckout_snd)
next
  case (Process m)
  with assms show ?thesis by (simp add: process_def Let_def split: option.splits)
next
  case (TimerFires rnd)
  with assms show ?thesis
    by (simp add: timeout_callback_def Let_def split: option.splits list.splits)
next
  case Complete
  with assms show ?thesis
    by (auto simp add: complete_pg_def Let_def settle_outcomes split: option.splits)
next
  case Cancel
  with assms show ?thesis
    by (auto simp add: cancel_def Let_def settle_outcomes split: option.splits)
qed

lemma gateway_outcome_run:
  "list_all gateway_outcome (promises s) \<Longrightarrow> list_all gateway_outcome (promises (pg_run es s))"
  by (induction es arbitrary: s) (simp_all add: gateway_outcome_step)

lemma gateway_failures_are_declined:
  assumes "h < length (promises (pg_run es pg_init))"
    and "payment_failed (promises (pg_run es pg_init) ! h)"
  shows "promises (pg_run es pg_init) ! h = Rejected (Rejection False ''User cancelled'') \<and>
         payment_declined (promises (pg_run es pg_init) ! h)"
proof -
  have "list_all gateway_outcome (promises (pg_run es pg_init))"
    by (rule gateway_outcome_run) (simp add: pg_init_def)
  with assms(1) have "gateway_outcome (promises (pg_run es pg_init) ! h)"
    by (simp add: list_all_length)
  with assms(2) show ?thesis
    by (cases "promises (pg_run es pg_init) ! h") auto
qed

section \<open>Properties of the application\<close>

subsection \<open>The double arithmetic\<close>

text \<open>\<open>floor_log2\<close> finds the binary exponent, \<open>round_half_even\<close> is within one half of its
  argument, and whole numbers below \<open>2^53\<close> are doubles: rounding leaves them alone, so a
  quotient that comes out even and a product that stays below \<open>2^53\<close> are exact.\<close>

lemma bitlen_nat_0 [simp]: "bitlen_nat 0 = 0"
  by (simp add: bitlen_nat.simps)

lemma bitlen_nat_Suc_0 [simp]: "bitlen_nat (Suc 0) = Suc 0"
  by (simp add: bitlen_nat.simps)

lemma bitlen_nat_One [simp]: "bitlen_nat (numeral Num.One) = Suc 0"
  by (simp add: bitlen_nat.simps)

lemma bitlen_nat_Bit0 [simp]: "bitlen_nat (numeral (Num.Bit0 k)) = Suc (bitlen_nat (numeral k))"
  by (subst bitlen_nat.simps) simp

lemma bitlen_nat_Bit1 [simp]: "bitlen_nat (numeral (Num.Bit1 k)) = Suc (bitlen_nat (numeral k))"
  by (subst bitlen_nat.simps) simp

lemma bitlen_nat_bounds:
  "0 < n \<Longrightarrow> 2 ^ (bitlen_nat n - 1) \<le> n \<and> n < 2 ^ bitlen_nat n"
proof (induction n rule: bitlen_nat.induct)
  case (1 n)
  show ?case
  proof (cases "n div 2 = 0")
    case True
    with "1.prems" have "n = 1" by (auto simp: div_eq_0_iff)
    then show ?thesis by simp
  next
    case False
    with "1.IH" "1.prems" have ih: "2 ^ (bitlen_nat (n div 2) - 1) \<le> n div 2"
      "n div 2 < 2 ^ bitlen_nat (n div 2)"
      by auto
    have pos: "0 < bitlen_nat (n div 2)"
      using False by (subst bitlen_nat.simps) simp
    have eq: "bitlen_nat n = Suc (bitlen_nat (n div 2))"
      using "1.prems" by (subst bitlen_nat.simps) simp
    from pos have "(2::nat) ^ bitlen_nat (n div 2) = 2 * 2 ^ (bitlen_nat (n div 2) - 1)"
      by (cases "bitlen_nat (n div 2)") simp_all
    with ih show ?thesis unfolding eq by simp linarith
  qed
qed

lemma bitlen_nat_pos: "0 < n \<Longrightarrow> 0 < bitlen_nat n"
  by (subst bitlen_nat.simps) simp

lemma bitlen_nat_le:
  assumes "0 < n" and "n < 2 ^ w"
  shows "bitlen_nat n \<le> w"
proof (rule ccontr)
  assume "\<not> bitlen_nat n \<le> w"
  then have "w \<le> bitlen_nat n - 1" by simp
  then have "(2::nat) ^ w \<le> 2 ^ (bitlen_nat n - 1)"
    by (simp add: power_increasing)
  with bitlen_nat_bounds [OF assms(1)] assms(2) show False by linarith
qed

lemma pow2_of_nat: "pow2 (int k) = 2 ^ k"
  by (simp add: pow2_def)

lemma pow2_minus_nat: "pow2 (- int k) = 1 / 2 ^ k"
  by (cases "k = 0") (simp_all add: pow2_def)

lemma pow2_pos: "0 < pow2 k"
  by (simp add: pow2_def)

lemma floor_log2_bounds:
  assumes "0 < x"
  shows "pow2 (floor_log2 x) \<le> x \<and> x < pow2 (floor_log2 x + 1)"
proof (cases "1 \<le> x")
  case True
  define n where "n = nat \<lfloor>x\<rfloor>"
  define k where "k = bitlen_nat n"
  from True have fl: "1 \<le> \<lfloor>x\<rfloor>" by simp
  then have n: "0 < n" and nx: "of_nat n = (of_int \<lfloor>x\<rfloor> :: rat)"
    by (simp_all add: n_def)
  from bitlen_nat_bounds [OF n] have b: "2 ^ (k - 1) \<le> n" "n < 2 ^ k"
    by (simp_all add: k_def)
  from bitlen_nat_pos [OF n] have k: "0 < k" by (simp add: k_def)
  have e: "floor_log2 x = int k - 1"
    using True by (simp add: floor_log2_def n_def k_def)
  have p1: "pow2 (int k - 1) = 2 ^ (k - 1)"
    using k pow2_of_nat [of "k - 1"] by (simp add: of_nat_diff)
  have p2: "pow2 (int k - 1 + 1) = 2 ^ k"
    using pow2_of_nat [of k] by simp
  from b(1) have "(2::rat) ^ (k - 1) \<le> of_nat n"
    by (metis of_nat_le_iff of_nat_numeral of_nat_power)
  also have "\<dots> \<le> x" by (simp add: nx)
  finally have lo: "2 ^ (k - 1) \<le> x" .
  from b(2) have "n + 1 \<le> 2 ^ k" by simp
  then have "(of_nat (n + 1) :: rat) \<le> 2 ^ k"
    by (metis of_nat_le_iff of_nat_numeral of_nat_power)
  moreover have "x < of_nat (n + 1)"
    using nx by simp linarith
  ultimately have hi: "x < 2 ^ k" by simp
  from lo hi show ?thesis by (simp add: e p1 pow2_of_nat)
next
  case False
  define y where "y = 1 / x"
  define c where "c = \<lceil>y\<rceil>"
  define m where "m = nat (c - 1)"
  define k where "k = bitlen_nat m"
  from False assms have y1: "1 < y" by (simp add: y_def)
  then have c2: "2 \<le> c" unfolding c_def by (simp add: le_ceiling_iff)
  then have m: "0 < m" and mc: "int m = c - 1" by (simp_all add: m_def)
  from bitlen_nat_bounds [OF m] have b: "2 ^ (k - 1) \<le> m" "m < 2 ^ k"
    by (simp_all add: k_def)
  from bitlen_nat_pos [OF m] have k: "0 < k" by (simp add: k_def)
  have e: "floor_log2 x = - int k"
    using False by (simp add: floor_log2_def y_def c_def m_def k_def)
  have ypos: "0 < y" using y1 by simp
  have xy: "x = 1 / y" by (simp add: y_def)
  have "y \<le> of_int c" by (simp add: c_def)
  also have "\<dots> = of_nat (m + 1)" using mc by simp
  also have "\<dots> \<le> 2 ^ k"
  proof -
    from b(2) have "m + 1 \<le> 2 ^ k" by simp
    then show ?thesis by (metis of_nat_le_iff of_nat_numeral of_nat_power)
  qed
  finally have yk: "y \<le> 2 ^ k" .
  then have lo: "1 / 2 ^ k \<le> x"
    unfolding xy using ypos by (simp add: frac_le)
  have "(2::rat) ^ (k - 1) \<le> of_nat m"
    using b(1) by (metis of_nat_le_iff of_nat_numeral of_nat_power)
  also have "\<dots> = of_int (c - 1)" using mc by (metis of_int_of_nat_eq)
  also have "\<dots> < y" unfolding c_def using ceiling_correct [of y] by simp
  finally have "(2::rat) ^ (k - 1) < y" .
  then have hi: "x < 1 / 2 ^ (k - 1)"
    unfolding xy using ypos by (simp add: frac_less2)
  have p2: "pow2 (1 - int k) = 1 / 2 ^ (k - 1)"
    using k pow2_minus_nat [of "k - 1"] by (simp add: of_nat_diff)
  from lo hi show ?thesis by (simp add: e pow2_minus_nat p2)
qed

lemma floor_log2_of_nat:
  assumes "0 < n"
  shows "floor_log2 (of_nat n) = int (bitlen_nat n) - 1"
  using assms by (simp add: floor_log2_def)

lemma round_half_even_of_int: "round_half_even (of_int z) = z"
  by (simp add: round_half_even_def)

lemma round_half_even_near:
  "\<bar>of_int (round_half_even x) - x\<bar> \<le> 1 / 2"
proof -
  have "of_int \<lfloor>x\<rfloor> \<le> x" and "x < of_int \<lfloor>x\<rfloor> + 1"
    by linarith+
  then show ?thesis
    unfolding round_half_even_def Let_def
    by (auto simp: abs_if) (insert of_int_floor_le [of x], linarith)+
qed

lemma round_double_exact:
  assumes "n < 2 ^ 53"
  shows "round_double neg (of_nat n) = Fin neg (of_nat n)"
proof (cases "n = 0")
  case True
  then show ?thesis by (simp add: round_double_def)
next
  case False
  then have n: "0 < n" by simp
  define k where "k = bitlen_nat n"
  from bitlen_nat_pos [OF n] bitlen_nat_le [OF n assms] have k: "0 < k" "k \<le> 53"
    by (simp_all add: k_def)
  define j where "j = 53 - k"
  have e: "floor_log2 (of_nat n) = int k - 1"
    using floor_log2_of_nat [OF n] by (simp add: k_def)
  have q: "int k - 53 = - int j" "max (- int j) (- 1074) = - int j"
    using k by (simp_all add: j_def)
  have sc: "(of_nat n :: rat) / pow2 (- int j) = of_int (int (n * 2 ^ j))"
    by (simp add: pow2_minus_nat)
  have r: "of_int (round_half_even ((of_nat n :: rat) / pow2 (- int j))) * pow2 (- int j)
      = of_nat n"
    unfolding sc round_half_even_of_int by (simp add: pow2_minus_nat)
  have "(of_nat n :: rat) < 2 ^ 53"
    using assms by (metis of_nat_less_iff of_nat_numeral of_nat_power)
  also have "\<dots> \<le> 2 ^ 1024" by (rule power_increasing) simp_all
  finally have small: "\<not> pow2 1024 \<le> (of_nat n :: rat)"
    using pow2_of_nat [of 1024] by simp
  from False show ?thesis
    by (simp add: round_double_def Let_def e q r small)
qed

lemma js_div_exact:
  assumes "0 < b" and "b dvd a" and "a div b < 2 ^ 53"
  shows "js_div (js_nat a) (js_nat b) = js_nat (a div b)"
proof -
  from assms(2) obtain c where a: "a = b * c" ..
  with assms(1) have c: "a div b = c" by simp
  have "(of_nat a :: rat) / of_nat b = of_nat c"
    using assms(1) by (simp add: a)
  with assms(1,3) show ?thesis
    by (simp add: js_nat_def c round_double_exact)
qed

lemma js_mul_exact:
  assumes "a * b < 2 ^ 53"
  shows "js_mul (js_nat a) (js_nat b) = js_nat (a * b)"
  using round_double_exact [OF assms, of False] by (simp add: js_nat_def)

subsection \<open>Evaluating double arithmetic on numerals\<close>

lemma floor_numeral_divide [simp]:
  "\<lfloor>numeral a / numeral b :: rat\<rfloor> = numeral a div numeral b"
  using floor_divide_of_int_eq [of "numeral a" "numeral b", where ?'a = rat] by simp

lemma ceiling_numeral_divide [simp]:
  "\<lceil>numeral a / numeral b :: rat\<rceil> = - (- numeral a div numeral b)"
  using floor_divide_of_int_eq [of "- numeral a" "numeral b", where ?'a = rat]
  by (simp add: ceiling_def)

lemmas double_eval = round_double_def floor_log2_def pow2_def round_half_even_def Let_def js_nat_def

lemma unit_price_example: "js_div (js_nat 50000000) (js_nat 1000) = js_nat 50000"
  by (simp add: double_eval)

lemma total_amount_example: "js_mul (js_nat 50000) (js_nat 10) = js_nat 500000"
  by (simp add: double_eval)

text \<open>Other quotients are rounded: one third is not a double, and \<open>1 / 49 * 49\<close> is the
  double just below one.\<close>

lemma one_third: "js_div (js_nat 1) (js_nat 3) = Fin False (6004799503160661 / 18014398509481984)"
  by (simp add: double_eval)

lemma inexact_product:
  "js_mul (js_div (js_nat 1) (js_nat 49)) (js_nat 49) = Fin False (9007199254740991 / 9007199254740992)"
  by (simp add: double_eval)

lemmas app_eval = buyTokens_def sellTokens_def apiCall_def Let_def API_BASE_URL_def
  connected_session_def no_session_def example_property_def approved_def truthy_def js_string_def
  report_def typeError_def

subsection \<open>Trading\<close>

text \<open>
  C7. Without an identity token (\<open>accessToken\<close> is unset or empty), \<open>buyTokens\<close> and
  \<open>sellTokens\<close> only show the alert that asks to connect the wallet and return at once:
  there is no pricing request, no gateway call and no settlement request.
\<close>

theorem trade_requires_token:
  assumes "\<not> truthy (accessToken s)"
  shows "buyTokens propId n priceRes checkout settlement s =
           ([Alert ''Please connect your wallet first''], Some Undefined) \<and>
         sellTokens propId n priceRes checkout settlement s =
           ([Alert ''Please connect your wallet first''], Some Undefined) \<and>
         filter is_network_call (fst (buyTokens propId n priceRes checkout settlement s)) = [] \<and>
         filter is_network_call (fst (sellTokens propId n priceRes checkout settlement s)) = []"
  using assms by (simp add: buyTokens_def sellTokens_def)

theorem trade_requires_token_witness:
  "\<not> truthy (accessToken no_session) \<and>
   buyTokens ''PROP1'' (js_nat 10) (Inr (Some example_property)) (Resolved approved)
       (Inr \<lparr>tr_success = True, tr_error = None, tr_transaction = Some ''TX''\<rparr>) no_session =
     ([Alert ''Please connect your wallet first''], Some Undefined) \<and>
   sellTokens ''PROP1'' (js_nat 10) (Inr (Some example_property)) (Resolved approved)
       (Inr \<lparr>tr_success = True, tr_error = None, tr_transaction = Some ''TX''\<rparr>) no_session =
     ([Alert ''Please connect your wallet first''], Some Undefined)"
proof -
  have a: "\<not> truthy (accessToken no_session)"
    by (simp add: no_session_def truthy_def)
  from trade_requires_token [OF a] a show ?thesis by simp
qed

text \<open>
  C5. When the gateway's promise is rejected, or resolved with \<open>success\<close> unset, neither
  \<open>buyTokens\<close> nor \<open>sellTokens\<close> sends a request to \<open>/api/trade/buy\<close> or \<open>/api/trade/sell\<close>,
  nor any other POST request.
\<close>

theorem rejected_checkout_no_settlement:
  assumes "payment_failed checkout"
  shows "filter is_settlement_call (fst (buyTokens propId n priceRes checkout settlement s)) = [] \<and>
         filter is_settlement_call (fst (sellTokens propId n priceRes checkout settlement s)) = [] \<and>
         filter is_post (fst (buyTokens propId n priceRes checkout settlement s)) = [] \<and>
         filter is_post (fst (sellTokens propId n priceRes checkout settlement s)) = []"
  using assms
  by (cases checkout)
     (simp_all add: buyTokens_def sellTokens_def apiCall_def Let_def API_BASE_URL_def
       split: sum.splits option.splits)

theorem rejected_checkout_no_settlement_witness:
  "payment_failed (Rejected (Rejection False ''User cancelled'')) \<and>
   filter is_settlement_call (fst (buyTokens ''PROP1'' (js_nat 10) (Inr (Some example_property))
       (Rejected (Rejection False ''User cancelled''))
       (Inr \<lparr>tr_success = True, tr_error = None, tr_transaction = Some ''TX''\<rparr>)
       connected_session)) = [] \<and>
   filter is_settlement_call (fst (sellTokens ''PROP1'' (js_nat 10) (Inr (Some example_property))
       (Rejected (Rejection False ''User cancelled''))
       (Inr \<lparr>tr_success = True, tr_error = None, tr_transaction = Some ''TX''\<rparr>)
       connected_session)) = []"
proof -
  have a: "payment_failed (Rejected (Rejection False ''User cancelled''))" by simp
  from rejected_checkout_no_settlement [OF a] a show ?thesis by simp
qed

text \<open>An approved payment is followed by exactly one settlement request, which carries
  the unit count and the references the gateway resolved with.\<close>

lemma approved_checkout_settles:
  assumes "truthy (accessToken s)" and "success r"
  shows "filter is_settlement_call
           (fst (buyTokens propId n (Inr (Some property)) (Resolved r) settlement s)) =
           [apiCall ''/api/trade/buy'' ''POST''
              (Some (TradeBody propId n (payment_ref r) (order_id r))) s] \<and>
         filter is_settlement_call
           (fst (sellTokens propId n (Inr (Some property)) (Resolved r) settlement s)) =
           [apiCall ''/api/trade/sell'' ''POST''
              (Some (TradeBody propId n (payment_ref r) (order_id r))) s]"
  using assms
  by (simp add: buyTokens_def sellTokens_def apiCall_def Let_def API_BASE_URL_def
      split: sum.splits)

text \<open>
  C8. With a session, the call first requests the pricing, and the amount handed to the gateway is
  \<open>(total_value / total_tokens) * tokenAmount\<close> in double arithmetic, for buy and for sell,
  whatever the gateway and the backend answer afterwards. For 50,000,000 and 1000 the unit
  price is 50,000, and for 10 units the amount is 500,000.
\<close>

theorem checkout_amount:
  assumes "truthy (accessToken s)"
  shows "take 1 (fst (buyTokens propId n (Inr (Some property)) checkout settlement s)) =
           [apiCall (''/api/properties/'' @ propId) ''GET'' None s] \<and>
         checkout_amounts (fst (buyTokens propId n (Inr (Some property)) checkout settlement s)) =
           [js_mul (js_div (total_value property) (total_tokens property)) n] \<and>
         take 1 (fst (sellTokens propId n (Inr (Some property)) checkout settlement s)) =
           [apiCall (''/api/properties/'' @ propId) ''GET'' None s] \<and>
         checkout_amounts (fst (sellTokens propId n (Inr (Some property)) checkout settlement s)) =
           [js_mul (js_div (total_value property) (total_tokens property)) n] \<and>
         js_div (js_nat 50000000) (js_nat 1000) = js_nat 50000 \<and>
         js_mul (js_nat 50000) (js_nat 10) = js_nat 500000"
  using assms
  by (simp add: buyTokens_def sellTokens_def apiCall_def Let_def unit_price_example
       total_amount_example split: sum.splits option.splits promise.splits)

theorem checkout_amount_witness:
  "truthy (accessToken connected_session) \<and>
   checkout_amounts (fst (buyTokens ''PROP1'' (js_nat 10) (Inr (Some example_property))
       (Resolved approved)
       (Inr \<lparr>tr_success = True, tr_error = None, tr_transaction = Some ''TX''\<rparr>)
       connected_session)) = [js_nat 500000] \<and>
   checkout_amounts (fst (sellTokens ''PROP1'' (js_nat 10) (Inr (Some example_property))
       (Resolved approved)
       (Inr \<lparr>tr_success = True, tr_error = None, tr_transaction = Some ''TX''\<rparr>)
       connected_session)) = [js_nat 500000]"
proof -
  have a: "truthy (accessToken connected_session)"
    by (simp add: connected_session_def truthy_def)
  have b: "total_value example_property = js_nat 50000000"
    "total_tokens example_property = js_nat 1000"
    by (simp_all add: example_property_def)
  note t = checkout_amount [OF a, where property = example_property and n = "js_nat 10",
      unfolded b]
  from t a show ?thesis by simp
qed

text \<open>For whole numbers where the units divide the value and nothing reaches \<open>2^53\<close>, the
  amount is the exact product of the unit price and the unit count.\<close>

lemma checkout_amount_whole_units:
  assumes "truthy (accessToken s)" and "0 < units" and "units dvd v"
    and "v div units < 2 ^ 53" and "v div units * k < 2 ^ 53"
  shows "checkout_amounts (fst (buyTokens propId (js_nat k)
           (Inr (Some \<lparr>total_value = js_nat v, total_tokens = js_nat units\<rparr>))
           checkout settlement s)) = [js_nat (v div units * k)] \<and>
         checkout_amounts (fst (sellTokens propId (js_nat k)
           (Inr (Some \<lparr>total_value = js_nat v, total_tokens = js_nat units\<rparr>))
           checkout settlement s)) = [js_nat (v div units * k)]"
  using assms(1) js_div_exact [OF assms(2,3,4)] js_mul_exact [OF assms(5)]
  by (simp add: buyTokens_def sellTokens_def apiCall_def Let_def
       split: sum.splits option.splits promise.splits)

text \<open>A purchase from end to end: the promise is the one the gateway resolves after a
  whole checkout for the options that \<open>buyTokens\<close> passes, and the settlement request
  carries the unit count and the two references of that checkout.\<close>

lemma buy_end_to_end:
  "buyTokens ''PROP1'' (js_nat 10) (Inr (Some example_property))
     (promises (pg_run [TriggerCheckout buy_options ''B1'', Process ''UPI'', TimerFires ''T1'',
        Complete] pg_init) ! 0)
     (Inr \<lparr>tr_success = True, tr_error = None, tr_transaction = Some ''TX''\<rparr>)
     connected_session =
   ([Fetch ''GET'' ''http://localhost:5000/api/properties/PROP1'' (Some ''JWT1'') None,
     Checkout buy_options,
     Fetch ''POST'' ''http://localhost:5000/api/trade/buy'' (Some ''JWT1'')
       (Some (TradeBody ''PROP1'' (js_nat 10) (Some ''TXN_T1'') ''ORDER_B1'')),
     Alert ''Payment Confirmed & Tokens Purchased Successfully!''],
    Some (Value ''TX''))"
proof -
  have g: "promises (pg_run [TriggerCheckout buy_options ''B1'', Process ''UPI'', TimerFires ''T1'',
        Complete] pg_init) ! 0 =
      Resolved \<lparr>success = True, payment_ref = Some ''TXN_T1'', order_id = ''ORDER_B1''\<rparr>"
    by (simp add: pg_eval)
  have a: "js_mul (js_div (js_nat 50000000) (js_nat 1000)) (js_nat 10) = js_nat 500000"
    by (simp add: unit_price_example total_amount_example)
  show ?thesis
    unfolding g by (simp add: app_eval a buy_options_def)
qed

lemma alerts_append [simp]: "alerts (xs @ ys) = alerts xs @ alerts ys"
  by (induction xs rule: alerts.induct) simp_all



text \<open>The alert of a cancelled payout: the object \<open>cancel\<close> rejects with has no
  \<open>message\<close>, and \<open>sellTokens\<close> does not test \<open>error.success\<close> as \<open>buyTokens\<close> does.\<close>

lemma cancelled_payout_alert:
  assumes "truthy (accessToken s)"
  shows "alerts (fst (sellTokens p n (Inr (Some info))
           (Rejected (Rejection False ''User cancelled'')) st s)) =
         [''Failed to sell tokens: undefined'']"
  using assms by (simp add: sellTokens_def apiCall_def Let_def js_string_def)

subsection \<open>Session\<close>

text \<open>
  C3 (as amended). When no wallet provider is attached, or the provider's \<open>disconnect\<close>
  returns normally, \<open>disconnectWallet\<close> clears the in-memory session (token and user) and
  removes the three persisted entries. When the provider's \<open>disconnect\<close> raises, the error
  is logged and nothing is cleared: the state is left as it was.
\<close>

theorem disconnectWallet_clears:
  "(\<not> peraWallet s \<or> provider = None \<longrightarrow>
      accessToken (snd (disconnectWallet provider s)) = None \<and>
      currentUser (snd (disconnectWallet provider s)) = None \<and>
      localStorage (snd (disconnectWallet provider s)) ''accessToken'' = None \<and>
      localStorage (snd (disconnectWallet provider s)) ''walletAddress'' = None \<and>
      localStorage (snd (disconnectWallet provider s)) ''isDemoMode'' = None) \<and>
   (peraWallet s \<and> provider = Some e \<longrightarrow>
      disconnectWallet provider s = ([ProviderDisconnect, ConsoleError ''Disconnect error:'' e], s))"
  by (auto simp add: disconnectWallet_def clearToken_def Let_def split: option.splits)

theorem disconnectWallet_clears_witness:
  "accessToken (snd (disconnectWallet None connected_session)) = None \<and>
   currentUser (snd (disconnectWallet None connected_session)) = None \<and>
   localStorage (snd (disconnectWallet None connected_session)) ''accessToken'' = None \<and>
   localStorage (snd (disconnectWallet None connected_session)) ''walletAddress'' = None \<and>
   localStorage (snd (disconnectWallet None connected_session)) ''isDemoMode'' = None \<and>
   peraWallet connected_session \<and>
   disconnectWallet (Some (JsError ''Session not found'')) connected_session =
     ([ProviderDisconnect, ConsoleError ''Disconnect error:'' (JsError ''Session not found'')],
      connected_session)"
proof -
  have a: "peraWallet connected_session" by (simp add: connected_session_def)
  from disconnectWallet_clears [of connected_session None]
    disconnectWallet_clears [of connected_session "Some (JsError ''Session not found'')"
      "JsError ''Session not found''"] a
  show ?thesis by simp
qed

text \<open>With a provider attached whose \<open>disconnect\<close> raises, the token, the user and the
  three persisted entries are all still there afterwards.\<close>

theorem disconnect_provider_failure_counterexample:
  "accessToken (snd (disconnectWallet (Some (JsError ''Session not found'')) connected_session))
     = Some ''JWT1'' \<and>
   currentUser (snd (disconnectWallet (Some (JsError ''Session not found'')) connected_session))
     \<noteq> None \<and>
   localStorage (snd (disconnectWallet (Some (JsError ''Session not found'')) connected_session))
     ''accessToken'' = Some ''JWT1'' \<and>
   localStorage (snd (disconnectWallet (Some (JsError ''Session not found'')) connected_session))
     ''walletAddress'' = Some ''ALGOADDRESS1'' \<and>
   localStorage (snd (disconnectWallet (Some (JsError ''Session not found'')) connected_session))
     ''isDemoMode'' = Some ''false''"
  by (simp add: disconnectWallet_def connected_session_def)

lemma updateWalletUI_session:
  assumes "localStorage s ''walletAddress'' \<noteq> None"
  shows "fst (updateWalletUI d s) = None"
    and "accessToken (snd (updateWalletUI d s)) = accessToken s"
    and "currentUser (snd (updateWalletUI d s)) = currentUser s"
    and "localStorage (snd (updateWalletUI d s)) = localStorage s"
  using assms
  by (auto simp add: updateWalletUI_def Let_def truthy_def split: option.splits prod.splits)

lemma updateWalletUI_cases:
  assumes "localStorage s ''walletAddress'' \<noteq> None"
  obtains s' where "updateWalletUI d s = (None, s')" "accessToken s' = accessToken s"
    "currentUser s' = currentUser s" "localStorage s' = localStorage s"
  using updateWalletUI_session [OF assms, of d] by (cases "updateWalletUI d s") auto

lemma finish_connected:
  assumes "s3 = (saveToken tok (s\<lparr>accessToken := tok, currentUser := usr\<rparr>))
                  \<lparr>localStorage := (localStorage (saveToken tok (s\<lparr>accessToken := tok, currentUser := usr\<rparr>)))
                     (''walletAddress'' \<mapsto> w, ''isDemoMode'' \<mapsto> d)\<rparr>"
  shows "(case updateWalletUI b s3 of (Some e, s4) \<Rightarrow> f e s4 | (None, s4) \<Rightarrow> (fx, s4)) = (fx, snd (updateWalletUI b s3))
    \<and> connected_to tok usr (snd (updateWalletUI b s3))"
proof -
  have w: "localStorage s3 ''walletAddress'' \<noteq> None"
    by (simp add: assms)
  from w obtain s4 where u: "updateWalletUI b s3 = (None, s4)" "accessToken s4 = accessToken s3"
    "currentUser s4 = currentUser s3" "localStorage s4 = localStorage s3"
    by (rule updateWalletUI_cases)
  then show ?thesis
    by (simp add: connected_to_def assms saveToken_def)
qed

lemma finish_effects:
  assumes "localStorage s3 ''walletAddress'' \<noteq> None"
  shows "fst (case updateWalletUI b s3 of (Some e, s4) \<Rightarrow> f e s4 | (None, s4) \<Rightarrow> (fx, s4)) = fx"
  using updateWalletUI_session(1) [OF assms, of b]
  by (cases "updateWalletUI b s3") auto

text \<open>
  C4 (as amended). When the registration response reports success or has status 400, the
  manager sends the login request and adopts the token and the profile of the login
  response. Otherwise it sends no login request, adopts the \<open>access_token\<close> of the
  registration response and takes \<open>{ wallet_address }\<close> as the profile. The adopted token
  is whatever that response carried, so it is unset when the response carried none. When
  the registration request or the login request raises, the session is left as it was and
  the failure is announced.
\<close>

theorem handleWalletConnection_adopts:
  assumes "isDemoMode \<or> accounts \<noteq> []"
  shows "(reg = Inr (status, data) \<and> (reg_success data \<or> status = 400) \<and> login = Inr loginData \<longrightarrow>
            connected_to (login_access_token loginData) (login_user loginData)
              (snd (handleWalletConnection accounts isDemoMode reg login s)) \<and>
            filter is_login_call (fst (handleWalletConnection accounts isDemoMode reg login s)) =
              [Fetch ''POST'' (API_BASE_URL @ ''/api/auth/login'') None
                 (Some (LoginBody (case accounts of [] \<Rightarrow> None | a # _ \<Rightarrow> Some a)))]) \<and>
         (reg = Inr (status, data) \<and> \<not> (reg_success data \<or> status = 400) \<longrightarrow>
            connected_to (reg_access_token data)
              (Some \<lparr>wallet_address = (case accounts of [] \<Rightarrow> None | a # _ \<Rightarrow> Some a),
                      user_name = None, user_email = None\<rparr>)
              (snd (handleWalletConnection accounts isDemoMode reg login s)) \<and>
            filter is_login_call (fst (handleWalletConnection accounts isDemoMode reg login s)) = []) \<and>
         (reg = Inl e \<or> (reg = Inr (status, data) \<and> (reg_success data \<or> status = 400) \<and> login = Inl e) \<longrightarrow>
            snd (handleWalletConnection accounts isDemoMode reg login s) = s \<and>
            alerts (fst (handleWalletConnection accounts isDemoMode reg login s)) =
              [''Failed to complete wallet connection''])"
proof (intro conjI impI)
  assume a: "reg = Inr (status, data) \<and> (reg_success data \<or> status = 400) \<and> login = Inr loginData"
  show "connected_to (login_access_token loginData) (login_user loginData)
              (snd (handleWalletConnection accounts isDemoMode reg login s))"
    using assms a
    by (cases accounts)
      (simp_all add: handleWalletConnection_def Let_def finish_connected del: fun_upd_apply)
  show "filter is_login_call (fst (handleWalletConnection accounts isDemoMode reg login s)) =
              [Fetch ''POST'' (API_BASE_URL @ ''/api/auth/login'') None
                 (Some (LoginBody (case accounts of [] \<Rightarrow> None | a # _ \<Rightarrow> Some a)))]"
    using assms a
    by (cases accounts)
      (simp_all add: handleWalletConnection_def Let_def finish_effects API_BASE_URL_def)
next
  assume a: "reg = Inr (status, data) \<and> \<not> (reg_success data \<or> status = 400)"
  show "connected_to (reg_access_token data)
              (Some \<lparr>wallet_address = (case accounts of [] \<Rightarrow> None | a # _ \<Rightarrow> Some a),
                      user_name = None, user_email = None\<rparr>)
              (snd (handleWalletConnection accounts isDemoMode reg login s))"
    using assms a
    by (cases accounts)
      (simp_all add: handleWalletConnection_def Let_def finish_connected del: fun_upd_apply)
  show "filter is_login_call (fst (handleWalletConnection accounts isDemoMode reg login s)) = []"
    using assms a
    by (cases accounts)
      (simp_all add: handleWalletConnection_def Let_def finish_effects API_BASE_URL_def)
next
  assume a: "reg = Inl e \<or> (reg = Inr (status, data) \<and> (reg_success data \<or> status = 400) \<and> login = Inl e)"
  show "snd (handleWalletConnection accounts isDemoMode reg login s) = s"
    using assms a
    by (cases accounts) (auto simp add: handleWalletConnection_def Let_def)
  show "alerts (fst (handleWalletConnection accounts isDemoMode reg login s)) =
              [''Failed to complete wallet connection'']"
    using assms a
    by (cases accounts) (auto simp add: handleWalletConnection_def Let_def)
qed

lemmas connect_eval = handleWalletConnection_def updateWalletUI_def saveToken_def Let_def
  no_session_def registered_def register_failed_def logged_in_def truthy_def js_string_def
  API_BASE_URL_def connected_to_def

theorem handleWalletConnection_adopts_witness:
  "[''ALGOADDRESS1''] \<noteq> [] \<and>
   connected_to (Some ''LOGINTOKEN'') (login_user logged_in)
     (snd (handleWalletConnection [''ALGOADDRESS1''] False
        (Inr (400, register_failed)) (Inr logged_in) no_session)) \<and>
   \<not> reg_success register_failed \<and> (500::nat) \<noteq> 400 \<and>
   connected_to None
     (Some \<lparr>wallet_address = Some ''ALGOADDRESS1'', user_name = None, user_email = None\<rparr>)
     (snd (handleWalletConnection [''ALGOADDRESS1''] False
        (Inr (500, register_failed)) (Inr logged_in) no_session)) \<and>
   snd (handleWalletConnection [''ALGOADDRESS1''] False
        (Inl (JsError ''Failed to fetch'')) (Inr logged_in) no_session) = no_session"
proof -
  have a: "False \<or> [''ALGOADDRESS1''] \<noteq> []" by simp
  have b: "login_access_token logged_in = Some ''LOGINTOKEN''"
    "reg_access_token register_failed = None" "\<not> reg_success register_failed"
    by (simp_all add: logged_in_def register_failed_def)
  from handleWalletConnection_adopts [OF a, of "Inr (400, register_failed)" 400 register_failed
      "Inr logged_in" logged_in no_session]
    handleWalletConnection_adopts [OF a, of "Inr (500, register_failed)" 500 register_failed
      "Inr logged_in" logged_in no_session]
    handleWalletConnection_adopts [OF a, of "Inl (JsError ''Failed to fetch'')" _ _
      "Inr logged_in" _ no_session "JsError ''Failed to fetch''"] b
  show ?thesis by simp
qed

text \<open>A registration that succeeds (it is not a duplicate) does not have its token adopted:
  the login token is. And a registration that fails with another status and carries no
  token leaves \<open>accessToken\<close> unset, persists the text \<open>undefined\<close> and still announces a
  successful connection.\<close>

theorem registration_token_counterexample:
  "accessToken (snd (handleWalletConnection [''ALGOADDRESS1''] False
      (Inr (201, registered)) (Inr logged_in) no_session)) = Some ''LOGINTOKEN'' \<and>
   reg_access_token registered = Some ''REGTOKEN'' \<and>
   accessToken (snd (handleWalletConnection [''ALGOADDRESS1''] False
      (Inr (500, register_failed)) (Inr logged_in) no_session)) = None \<and>
   localStorage (snd (handleWalletConnection [''ALGOADDRESS1''] False
      (Inr (500, register_failed)) (Inr logged_in) no_session)) ''accessToken'' = Some ''undefined'' \<and>
   alerts (fst (handleWalletConnection [''ALGOADDRESS1''] False
      (Inr (500, register_failed)) (Inr logged_in) no_session)) =
     [''Wallet connected successfully!'' @ [CHR 0x0A, CHR 0x0A] @ ''Address: ALGOADDRESS1'']"
  by (simp add: connect_eval)


end
